theory Spec2Isabelle
  imports Main "HOL-Library.Word" "HOL-Library.Sublist"
begin

section \<open>Errors, outcomes and the observable world\<close>

text \<open>
  Go errors are compared by identity. \<open>errors.New\<close> and \<open>errors.Wrap\<close> of
  \<^verbatim>\<open>github.com/pkg/errors\<close> build a fresh value, so a wrapped error is never equal to a
  sentinel: the constructors of the datatype are distinct in the same way.
  \<open>Ext\<close> stands for an error produced by a collaborator outside the modelled code
  (websocket, JSON driver, REST client).
\<close>

datatype error =
    ErrDead
  | ErrInvalidSession
  | ErrMFA
  | ErrMissingForResume
  | ErrorsNew string
  | Wrap error string
  | Ext string

text \<open>
  A call returns, blocks for ever (a channel operation or a \<open>WaitGroup.Wait\<close> that
  nothing releases; for a loop fed by a script: the script is used up and the loop waits
  in its \<open>select\<close>), or panics.
\<close>

datatype 'a outcome = Returned 'a | Blocked | Panicked

type_synonym chan = nat

datatype chan_state = ChanOpen | ChanClosed

text \<open>
  What the modelled functions do to the outside, in program order. \<open>g.WS.Listen()\<close> only
  hands out the channel of frames and is not recorded; what arrives on a channel is an
  input of the functions.
\<close>

datatype action =
    ChanClose chan
  | GoPacemaker chan
  | GoHandleWS
  | WSDial
  | CallIdentify
  | CallResume
  | WaitGroupWait
  | WSClose
  | ErrorLog error
  | FatalLog error
  | Reconnecting

record world =
  chans :: "chan \<rightharpoonup> chan_state"
  next_chan :: chan
  trace :: "action list"

definition emit :: "action \<Rightarrow> world \<Rightarrow> world" where
  "emit a w = w\<lparr>trace := trace w @ [a]\<rparr>"

text \<open>\<open>make(chan T)\<close>: a new open channel.\<close>

definition make_chan :: "world \<Rightarrow> chan \<times> world" where
  "make_chan w =
     (next_chan w,
      w\<lparr>chans := (chans w)(next_chan w \<mapsto> ChanOpen), next_chan := Suc (next_chan w)\<rparr>)"

text \<open>\<open>close(c)\<close> panics on a channel that is already closed (or was never made).\<close>

definition close_chan :: "chan \<Rightarrow> world \<Rightarrow> world outcome" where
  "close_chan c w =
     (case chans w c of
        Some ChanOpen \<Rightarrow> Returned (emit (ChanClose c) (w\<lparr>chans := (chans w)(c \<mapsto> ChanClosed)\<rparr>))
      | _ \<Rightarrow> Panicked)"

section \<open>The pacemaker (gateway/pacemaker.go)\<close>

text \<open>\<open>Time\<close> is a UnixNano timestamp, \<open>time.Duration\<close> a count of nanoseconds: both int64.\<close>

type_synonym Time = "64 word"

record Pacemaker =
  Heartrate :: "64 word"
  SentBeat :: Time
  EchoBeat :: Time
  stop :: "chan option"
  death :: "chan option"

text \<open>\<open>Echo\<close> stores \<open>time.Now().UnixNano()\<close>, here the argument \<open>now\<close>.\<close>

definition Echo :: "Pacemaker \<Rightarrow> Time \<Rightarrow> Pacemaker" where
  "Echo p now = p\<lparr>EchoBeat := now\<rparr>"

text \<open>
  \<open>Dead\<close>: the subtraction and the doubling are int64 operations (they wrap around), the
  comparison is signed.
\<close>

definition Dead :: "Pacemaker \<Rightarrow> bool" where
  "Dead p =
     (let echo = EchoBeat p; sent = SentBeat p
      in if echo = 0 \<or> sent = 0 then False
         else Heartrate p * 2 <s sent - echo)"

definition Stop :: "Pacemaker \<Rightarrow> world \<Rightarrow> (Pacemaker \<times> world) outcome" where
  "Stop p w =
     (case stop p of
        None \<Rightarrow> Returned (p, w)
      | Some c \<Rightarrow>
          (case close_chan c w of
             Returned w' \<Rightarrow> Returned (p\<lparr>stop := None\<rparr>, w')
           | Blocked \<Rightarrow> Blocked
           | Panicked \<Rightarrow> Panicked))"

text \<open>\<open>k\<close> calls of \<open>Stop\<close>, one after the other.\<close>

fun Stop_times :: "nat \<Rightarrow> Pacemaker \<Rightarrow> world \<Rightarrow> (Pacemaker \<times> world) outcome" where
  "Stop_times 0 p w = Returned (p, w)"
| "Stop_times (Suc k) p w =
     (case Stop p w of
        Returned (p', w') \<Rightarrow> Stop_times k p' w'
      | Blocked \<Rightarrow> Blocked
      | Panicked \<Rightarrow> Panicked)"

text \<open>
  A \<open>*sync.WaitGroup\<close> is its counter; \<open>None\<close> is the nil pointer. \<open>Add(1)\<close> and
  \<open>Done()\<close> panic on nil, \<open>Done()\<close> also on a counter that is already zero.
\<close>

type_synonym waitgroup = "nat option"

definition wg_Add1 :: "waitgroup \<Rightarrow> waitgroup outcome" where
  "wg_Add1 wg = (case wg of None \<Rightarrow> Panicked | Some n \<Rightarrow> Returned (Some (Suc n)))"

definition wg_Done :: "waitgroup \<Rightarrow> waitgroup outcome" where
  "wg_Done wg =
     (case wg of None \<Rightarrow> Panicked | Some 0 \<Rightarrow> Panicked | Some (Suc n) \<Rightarrow> Returned (Some n))"

text \<open>
  \<open>StartAsync\<close> makes the death and the stop channel, stores both, adds one to the wait
  group when there is one, and spawns the goroutine that runs \<open>start\<close>. It returns the
  death channel.
\<close>

definition StartAsync ::
  "Pacemaker \<Rightarrow> waitgroup \<Rightarrow> world \<Rightarrow> Pacemaker \<times> waitgroup \<times> world \<times> chan" where
  "StartAsync p wg w =
     (let (d, w1) = make_chan w;
          (s, w2) = make_chan w1;
          wg' = (case wg of None \<Rightarrow> None | Some n \<Rightarrow> Some (Suc n))
      in (p\<lparr>stop := Some s, death := Some d\<rparr>, wg', emit (GoPacemaker s) w2, d))"

text \<open>
  One turn of the \<open>select\<close> in \<open>Pacemaker.start\<close>, as the environment decides it: the
  stop channel is closed and its case is taken; the ticker fires and \<open>Pace\<close> fails; the
  ticker fires, \<open>Pace\<close> succeeds and \<open>time.Now().UnixNano()\<close> is the given stamp. The
  receive path calls \<open>Echo\<close> from another goroutine: \<open>EchoAt\<close> is such a call between two
  turns (a call during a turn changes nothing before \<open>Dead\<close> loads \<open>EchoBeat\<close>, so it is
  the same as one just before the turn, and one after the load is the same as one just
  after the turn).
\<close>

datatype pm_event =
    StopClosed
  | TickPaceErr error
  | TickPaced Time
  | EchoAt Time

fun pm_loop :: "Pacemaker \<Rightarrow> pm_event list \<Rightarrow> Pacemaker \<times> error option outcome" where
  "pm_loop p [] = (p, Blocked)"
| "pm_loop p (StopClosed # es) = (p, Returned None)"
| "pm_loop p (TickPaceErr err # es) = (p, Returned (Some err))"
| "pm_loop p (TickPaced now # es) =
     (let p' = p\<lparr>SentBeat := now\<rparr>
      in if Dead p' then (p', Returned (Some ErrDead)) else pm_loop p' es)"
| "pm_loop p (EchoAt now # es) = pm_loop (Echo p now) es"

text \<open>
  \<open>Pacemaker.start(stop, wg)\<close>. \<open>time.NewTicker\<close> panics on a duration that is not
  positive, before the deferred \<open>wg.Done()\<close> is registered. \<open>now0\<close> is the clock at the
  initial \<open>Echo\<close>.
\<close>

definition pacemaker_start ::
  "Pacemaker \<Rightarrow> waitgroup \<Rightarrow> Time \<Rightarrow> pm_event list
     \<Rightarrow> Pacemaker \<times> waitgroup \<times> error option outcome" where
  "pacemaker_start p wg now0 script =
     (if sint (Heartrate p) \<le> 0 then (p, wg, Panicked)
      else
        (case pm_loop (Echo p now0) script of
           (p', Returned r) \<Rightarrow>
             (case wg of
                None \<Rightarrow> (p', None, Returned r)
              | Some n \<Rightarrow>
                  (case wg_Done wg of
                     Returned wg' \<Rightarrow> (p', wg', Returned r)
                   | Blocked \<Rightarrow> (p', wg, Blocked)
                   | Panicked \<Rightarrow> (p', wg, Panicked)))
         | (p', Blocked) \<Rightarrow> (p', wg, Blocked)
         | (p', Panicked) \<Rightarrow> (p', wg, Panicked)))"

section \<open>The gateway (gateway.go)\<close>

text \<open>A frame of the websocket's listen channel: a read or decode error, or the bytes.\<close>

record Event =
  Error :: "error option"
  Data :: "8 word list"

text \<open>
  The fields of \<open>Gateway\<close> that \<open>Open\<close>, \<open>Start\<close>, \<open>start\<close>, \<open>Close\<close>, \<open>Reconnect\<close>,
  \<open>handleWS\<close> and \<open>eventLoop\<close> read or write. \<open>Pacemaker\<close> and \<open>waitGroup\<close> are pointers:
  \<open>None\<close> is nil.
\<close>

record Gateway =
  SessionID :: string
  Pacemaker :: "Pacemaker option"
  paceDeath :: "chan option"
  waitGroup :: waitgroup

text \<open>
  What the collaborators answer during one turn of the loop in \<open>Open\<close>: the websocket
  (\<open>Dial\<close>, the frames of \<open>Listen\<close>, \<open>Close\<close>), \<open>AssertEvent\<close> on the first frame (an error,
  or the heartbeat interval of the Hello as a duration), \<open>Identify\<close> or \<open>Resume\<close>
  (whichever \<open>start\<close> calls), and the other goroutines: whether they leave the wait group
  so that \<open>Wait\<close> returns.
\<close>

record env =
  dial_res :: "error option"
  hello_res :: "error + 64 word"
  auth_res :: "error option"
  first_ev :: Event
  join_returns :: bool
  ws_close_res :: "error option"

text \<open>
  \<open>HandleEvent(g, data)\<close> is not among the sources at hand. The functions below take it
  as a parameter: what it does to the gateway's fields, and the error it returns.
\<close>

type_synonym handler = "Gateway \<Rightarrow> 8 word list \<Rightarrow> Gateway \<times> error option"

text \<open>
  \<open>Close\<close>: stop the pacemaker, wait for the wait group, forget the wait group, close
  the websocket. \<open>g.Pacemaker.Stop()\<close> and \<open>g.waitGroup.Wait()\<close> dereference their
  pointer. \<open>Wait\<close> returns at once on a counter of zero, and otherwise when the other
  goroutines have called \<open>Done\<close>.
\<close>

definition Close :: "Gateway \<Rightarrow> world \<Rightarrow> env \<Rightarrow> Gateway \<times> world \<times> error option outcome" where
  "Close g w e =
     (case Pacemaker g of
        None \<Rightarrow> (g, w, Panicked)
      | Some p \<Rightarrow>
          (case Stop p w of
             Returned (p', w1) \<Rightarrow>
               (let g1 = g\<lparr>Pacemaker := Some p'\<rparr>
                in case waitGroup g1 of
                     None \<Rightarrow> (g1, w1, Panicked)
                   | Some n \<Rightarrow>
                       if n = 0 \<or> join_returns e
                       then (g1\<lparr>waitGroup := None\<rparr>,
                             emit WSClose (emit WaitGroupWait w1),
                             Returned (ws_close_res e))
                       else (g1, emit WaitGroupWait w1, Blocked))
           | Blocked \<Rightarrow> (g, w, Blocked)
           | Panicked \<Rightarrow> (g, w, Panicked)))"

text \<open>
  \<open>start\<close> of the gateway. \<open>errors.Wrap\<close> is applied to errors that are not nil only.
\<close>

definition gateway_start ::
  "handler \<Rightarrow> Gateway \<Rightarrow> world \<Rightarrow> env \<Rightarrow> Gateway \<times> world \<times> error option outcome" where
  "gateway_start H g w e =
     (case hello_res e of
        Inl err \<Rightarrow> (g, w, Returned (Some (Wrap err ''Error at Hello'')))
      | Inr rate \<Rightarrow>
        (let (p, wg, w1, d) =
               StartAsync
                 \<lparr>Heartrate = rate, SentBeat = 0, EchoBeat = 0, stop = None, death = None\<rparr>
                 (Some 0) w;
             g1 = g\<lparr>Pacemaker := Some p, paceDeath := Some d, waitGroup := wg\<rparr>;
             w2 = emit (if SessionID g1 = [] then CallIdentify else CallResume) w1
         in case auth_res e of
              Some err \<Rightarrow>
                (g1, w2,
                 Returned (Some (Wrap err
                   (if SessionID g1 = [] then ''Failed to identify'' else ''Failed to resume''))))
            | None \<Rightarrow>
                (case Error (first_ev e) of
                   Some err \<Rightarrow> (g1, w2, Returned (Some (Wrap err ''First error'')))
                 | None \<Rightarrow>
                     (case H g1 (Data (first_ev e)) of
                        (g2, Some err) \<Rightarrow>
                          (g2, w2, Returned (Some (Wrap err ''WS handler error on first event'')))
                      | (g2, None) \<Rightarrow>
                          (case wg_Add1 (waitGroup g2) of
                             Returned wg' \<Rightarrow>
                               (g2\<lparr>waitGroup := wg'\<rparr>, emit GoHandleWS w2, Returned None)
                           | Blocked \<Rightarrow> (g2, w2, Blocked)
                           | Panicked \<Rightarrow> (g2, w2, Panicked))))))"

text \<open>\<open>Start\<close>: when \<open>start\<close> fails, close, drop what \<open>Close\<close> returns, return the error of \<open>start\<close>.\<close>

definition Start ::
  "handler \<Rightarrow> Gateway \<Rightarrow> world \<Rightarrow> env \<Rightarrow> Gateway \<times> world \<times> error option outcome" where
  "Start H g w e =
     (case gateway_start H g w e of
        (g1, w1, Returned (Some err)) \<Rightarrow>
          (case Close g1 w1 e of
             (g2, w2, Returned cerr) \<Rightarrow> (g2, w2, Returned (Some err))
           | (g2, w2, Blocked) \<Rightarrow> (g2, w2, Blocked)
           | (g2, w2, Panicked) \<Rightarrow> (g2, w2, Panicked))
      | (g1, w1, Returned None) \<Rightarrow> (g1, w1, Returned None)
      | (g1, w1, Blocked) \<Rightarrow> (g1, w1, Blocked)
      | (g1, w1, Panicked) \<Rightarrow> (g1, w1, Panicked))"

text \<open>
  The loop of \<open>Open\<close>, from turn \<open>i\<close> on; \<open>envs i\<close> is what the collaborators answer in
  turn \<open>i\<close>. The loop has no exit but the \<open>return nil\<close> after a successful \<open>Start\<close>:
  \<open>None\<close> is the loop that never returns. A \<open>Start\<close> that blocks or panics ends the call
  that way.
\<close>

partial_function (option) Open_loop ::
  "handler \<Rightarrow> (nat \<Rightarrow> env) \<Rightarrow> Gateway \<Rightarrow> world \<Rightarrow> nat
     \<Rightarrow> (Gateway \<times> world \<times> error option outcome) option" where
  "Open_loop H envs g w i =
     (case dial_res (envs i) of
        Some err \<Rightarrow>
          Open_loop H envs g
            (emit (ErrorLog (Wrap err ''Failed to reconnect'')) (emit WSDial w)) (Suc i)
      | None \<Rightarrow>
          (case Start H g (emit WSDial w) (envs i) of
             (g1, w1, Returned (Some err)) \<Rightarrow>
               if err = ErrInvalidSession then Open_loop H envs g1 w1 (Suc i)
               else Open_loop H envs g1
                      (emit (ErrorLog (Wrap err ''Failed to start gateway'')) w1) (Suc i)
           | (g1, w1, Returned None) \<Rightarrow> Some (g1, w1, Returned None)
           | (g1, w1, Blocked) \<Rightarrow> Some (g1, w1, Blocked)
           | (g1, w1, Panicked) \<Rightarrow> Some (g1, w1, Panicked)))"

definition Open ::
  "handler \<Rightarrow> (nat \<Rightarrow> env) \<Rightarrow> Gateway \<Rightarrow> world
     \<Rightarrow> (Gateway \<times> world \<times> error option outcome) option" where
  "Open H envs g w = Open_loop H envs g w 0"





section \<open>Close and the goroutines it waits for\<close>












section \<open>The session (session/session.go)\<close>

record LoginResponse =
  Token :: string
  MFA :: bool
  Ticket :: string

text \<open>Of a \<open>Session\<close>: the token its API client was made with, and its gateway.\<close>

record Session =
  Client :: string
  Gateway :: Gateway

text \<open>\<open>New(token)\<close>; \<open>gateway.NewGateway\<close> is the parameter \<open>new_gateway\<close>.\<close>

definition New :: "(string \<Rightarrow> error + Gateway) \<Rightarrow> string \<Rightarrow> error + Session" where
  "New new_gateway token =
     (case new_gateway token of
        Inl err \<Rightarrow> Inl (Wrap err ''Failed to connect to Gateway'')
      | Inr g \<Rightarrow> Inr \<lparr>Client = token, Gateway = g\<rparr>)"

text \<open>
  \<open>Login(email, password, mfa)\<close>; the REST calls \<open>client.Login\<close> and \<open>client.TOTP\<close> are the
  parameters \<open>client_login\<close> and \<open>client_totp\<close>.
\<close>

definition Login ::
  "(string \<Rightarrow> string \<Rightarrow> error + LoginResponse) \<Rightarrow> (string \<Rightarrow> string \<Rightarrow> error + LoginResponse)
     \<Rightarrow> (string \<Rightarrow> error + Gateway) \<Rightarrow> string \<Rightarrow> string \<Rightarrow> string \<Rightarrow> error + Session" where
  "Login client_login client_totp new_gateway email password mfa =
     (case client_login email password of
        Inl err \<Rightarrow> Inl (Wrap err ''Failed to login'')
      | Inr l \<Rightarrow>
          if Token l \<noteq> [] \<and> \<not> MFA l then New new_gateway (Token l)
          else if mfa = [] then Inl ErrMFA
          else
            (case client_totp mfa (Ticket l) of
               Inl err \<Rightarrow> Inl (Wrap err ''Failed to login with 2FA'')
             | Inr l2 \<Rightarrow> New new_gateway (Token l2)))"

section \<open>Assumptions on the clock\<close>

text \<open>
  The stamps come from \<open>time.Now().UnixNano()\<close>. The theorems on liveness are stated
  for stamps after 1970 and before 2116 (\<open>2 ^ 62\<close> ns), where no int64 operation of
  \<open>Dead\<close> overflows. These predicates are hypotheses of theorems, not code.
\<close>

definition in_range :: "Time \<Rightarrow> bool" where
  "in_range t \<longleftrightarrow> 0 < sint t \<and> sint t < 2 ^ 62"

fun stamps_in_range :: "pm_event list \<Rightarrow> bool" where
  "stamps_in_range [] = True"
| "stamps_in_range (TickPaced t # es) = (in_range t \<and> stamps_in_range es)"
| "stamps_in_range (EchoAt t # es) = (in_range t \<and> stamps_in_range es)"
| "stamps_in_range (ev # es) = stamps_in_range es"

text \<open>
  \<open>fresh_echo h e script\<close>: at every tick that the loop reaches, the heartbeat just sent
  is stamped at most \<open>2 * h\<close> after the last echo (\<open>e\<close> at first, then the stamp of the
  last \<open>EchoAt\<close>).
\<close>

fun fresh_echo :: "int \<Rightarrow> Time \<Rightarrow> pm_event list \<Rightarrow> bool" where
  "fresh_echo h e [] = True"
| "fresh_echo h e (TickPaced t # es) = (sint t - sint e \<le> 2 * h \<and> fresh_echo h e es)"
| "fresh_echo h e (EchoAt t # es) = fresh_echo h t es"
| "fresh_echo h e (ev # es) = True"

section \<open>Auxiliary notions for the statements\<close>

text \<open>
  The gateway and the world that \<open>start\<close> of the gateway has built when it reaches the
  first event: the pacemaker started on its two new channels, the wait group counting
  it, and \<open>Identify\<close> or \<open>Resume\<close> called.
\<close>

definition started_g :: "Gateway \<Rightarrow> world \<Rightarrow> 64 word \<Rightarrow> Gateway" where
  "started_g g w rate =
     g\<lparr>Pacemaker := Some \<lparr>Heartrate = rate, SentBeat = 0, EchoBeat = 0,
                             stop = Some (Suc (next_chan w)), death = Some (next_chan w)\<rparr>,
        paceDeath := Some (next_chan w), waitGroup := Some (Suc 0)\<rparr>"

definition started_w :: "Gateway \<Rightarrow> world \<Rightarrow> world" where
  "started_w g w =
      w\<lparr>chans := (chans w)(next_chan w \<mapsto> ChanOpen, Suc (next_chan w) \<mapsto> ChanOpen),
        next_chan := Suc (Suc (next_chan w)),
        trace := trace w @ [GoPacemaker (Suc (next_chan w)),
                            if SessionID g = [] then CallIdentify else CallResume]\<rparr>"

text \<open>
  \<open>open_success H envs i y\<close>: in some turn from \<open>i\<close> on, the dial succeeded and \<open>Start\<close>
  ended as \<open>y\<close>.
\<close>

definition open_success :: "handler \<Rightarrow> (nat \<Rightarrow> env) \<Rightarrow> nat \<Rightarrow> Gateway \<times> world \<times> error option outcome \<Rightarrow> bool" where
  "open_success H envs i y \<longleftrightarrow>
     (\<exists>n gn wn. i \<le> n \<and> dial_res (envs n) = None \<and> Start H gn (emit WSDial wn) (envs n) = y)"







section \<open>Concrete inputs\<close>

text \<open>A heartrate of \<open>2 ^ 62\<close> nanoseconds: its double does not fit an int64.\<close>

definition pm_overflow :: Pacemaker where
  "pm_overflow =
     \<lparr>Heartrate = 4611686018427387904, SentBeat = 1700000000000000002,
      EchoBeat = 1700000000000000001, stop = None, death = None\<rparr>"

text \<open>A heartrate of 100 ns; the last echo is 300 ns older than the last heartbeat.\<close>

definition pm_late :: Pacemaker where
  "pm_late = \<lparr>Heartrate = 100, SentBeat = 1300, EchoBeat = 1000, stop = None, death = None\<rparr>"

definition pm_fresh :: Pacemaker where
  "pm_fresh = \<lparr>Heartrate = 100, SentBeat = 0, EchoBeat = 0, stop = None, death = None\<rparr>"

definition world0 :: world where
  "world0 = \<lparr>chans = Map.empty, next_chan = 0, trace = []\<rparr>"

text \<open>A pacemaker as \<open>start\<close> of the gateway makes it, on a Hello of 40 ms.\<close>

definition pm40 :: Pacemaker where
  "pm40 = \<lparr>Heartrate = 40000000, SentBeat = 0, EchoBeat = 0, stop = None, death = None\<rparr>"

text \<open>Answers of the REST client and of \<open>NewGateway\<close>.\<close>

definition login_needs_mfa :: "string \<Rightarrow> string \<Rightarrow> error + LoginResponse" where
  "login_needs_mfa email password = Inr \<lparr>Token = [], MFA = True, Ticket = ''ticket''\<rparr>"

definition login_token :: "string \<Rightarrow> string \<Rightarrow> error + LoginResponse" where
  "login_token email password = Inr \<lparr>Token = ''token'', MFA = False, Ticket = []\<rparr>"

definition totp_down :: "string \<Rightarrow> string \<Rightarrow> error + LoginResponse" where
  "totp_down code ticket = Inl (Ext ''connection refused'')"

definition gateway0 :: Gateway where
  "gateway0 = \<lparr>SessionID = [], Pacemaker = None, paceDeath = None, waitGroup = None\<rparr>"

definition new_gateway_ok :: "string \<Rightarrow> error + Gateway" where
  "new_gateway_ok token = Inr gateway0"

text \<open>
  A stand-in for \<open>HandleEvent\<close> in the concrete runs: the frame of the one byte 1 is a
  READY with the session id S, the one byte 9 an INVALID_SESSION that cannot be resumed.
\<close>

definition handler_demo :: handler where
  "handler_demo g d =
     (if d = [1] then (g\<lparr>SessionID := ''S''\<rparr>, None)
      else if d = [9] then (g\<lparr>SessionID := []\<rparr>, Some ErrInvalidSession)
      else (g, None))"

definition env_ok :: env where
  "env_ok = \<lparr>dial_res = None, hello_res = Inr 40000000, auth_res = None,
             first_ev = \<lparr>Error = None, Data = [1]\<rparr>, join_returns = True,
             ws_close_res = None\<rparr>"

definition env_dial_down :: env where
  "env_dial_down = env_ok\<lparr>dial_res := Some (Ext ''connection refused'')\<rparr>"

definition env_auth_fails :: env where
  "env_auth_fails =
     env_ok\<lparr>auth_res := Some (Ext ''write timeout''), ws_close_res := Some (Ext ''close failed'')\<rparr>"

definition envs_two_dials_down :: "nat \<Rightarrow> env" where
  "envs_two_dials_down n = (if n < 2 then env_dial_down else env_ok)"

definition envs_auth_fails_once :: "nat \<Rightarrow> env" where
  "envs_auth_fails_once n = (if n = 0 then env_auth_fails else env_ok)"


definition env_no_hello :: env where
  "env_no_hello = env_ok\<lparr>hello_res := Inl (Ext ''unexpected opcode'')\<rparr>"

text \<open>A first turn in which \<open>Identify\<close> fails, then turns without a Hello.\<close>

definition envs_no_hello_second :: "nat \<Rightarrow> env" where
  "envs_no_hello_second n = (if n = 0 then env_auth_fails else env_no_hello)"

definition env_invalid_session :: env where
  "env_invalid_session =
     env_ok\<lparr>first_ev := \<lparr>Error = None, Data = [9]\<rparr>, ws_close_res := Some (Ext ''close failed'')\<rparr>"




section \<open>The pacemaker: liveness check and stopping\<close>

lemma Dead_word:
  "Dead p \<longleftrightarrow>
     EchoBeat p \<noteq> 0 \<and> SentBeat p \<noteq> 0 \<and> sint (Heartrate p * 2) < sint (SentBeat p - EchoBeat p)"
  by (simp add: Dead_def Let_def word_sless_alt)

lemma sint_sub_no_overflow:
  fixes a b :: "64 word"
  assumes "- (2 ^ 63) \<le> sint a - sint b" "sint a - sint b < 2 ^ 63"
  shows "sint (a - b) = sint a - sint b"
  using assms by (simp add: sint_word_ariths signed_take_bit_int_eq_self)

lemma sint_dbl_no_overflow:
  fixes h :: "64 word"
  assumes "- (2 ^ 63) \<le> 2 * sint h" "2 * sint h < 2 ^ 63"
  shows "sint (h * 2) = 2 * sint h"
  using assms by (simp add: sint_word_ariths signed_take_bit_int_eq_self mult.commute)

text \<open>
  C2, as stated, reads the difference and the double as numbers. \<open>Dead\<close> computes both
  in int64: at a heartrate of \<open>2 ^ 62\<close> ns the double wraps to \<open>- 2 ^ 63\<close>, every
  difference but the least int64 exceeds it, and \<open>Dead\<close> is true although the echo is one
  nanosecond older than the heartbeat.
\<close>

theorem Dead_counterexample:
  "\<not> (Dead pm_overflow \<longleftrightarrow>
        EchoBeat pm_overflow \<noteq> 0 \<and> SentBeat pm_overflow \<noteq> 0 \<and>
        2 * sint (Heartrate pm_overflow)
          < sint (SentBeat pm_overflow) - sint (EchoBeat pm_overflow))"
  by (simp add: Dead_def pm_overflow_def word_sless_alt)

text \<open>
  C2, amended. For every pacemaker state, \<open>Dead\<close> is true if and only if \<open>SentBeat\<close> and
  \<open>EchoBeat\<close> are both non-zero and the int64 difference \<open>SentBeat - EchoBeat\<close> exceeds,
  as a signed number, the int64 product \<open>Heartrate * 2\<close>; in particular \<open>Dead\<close> is false
  whenever either timestamp is zero. Where neither the difference nor the double
  overflows an int64, that is: \<open>SentBeat\<close> minus \<open>EchoBeat\<close> exceeds twice the
  \<open>Heartrate\<close>.
\<close>

theorem Dead_iff:
  "(Dead p \<longleftrightarrow>
      EchoBeat p \<noteq> 0 \<and> SentBeat p \<noteq> 0 \<and>
      sint (Heartrate p * 2) < sint (SentBeat p - EchoBeat p)) \<and>
   (EchoBeat p = 0 \<or> SentBeat p = 0 \<longrightarrow> \<not> Dead p) \<and>
   (- (2 ^ 63) \<le> sint (SentBeat p) - sint (EchoBeat p) \<and>
    sint (SentBeat p) - sint (EchoBeat p) < 2 ^ 63 \<and>
    - (2 ^ 63) \<le> 2 * sint (Heartrate p) \<and> 2 * sint (Heartrate p) < 2 ^ 63 \<longrightarrow>
      (Dead p \<longleftrightarrow>
         EchoBeat p \<noteq> 0 \<and> SentBeat p \<noteq> 0 \<and>
         2 * sint (Heartrate p) < sint (SentBeat p) - sint (EchoBeat p)))"
proof -
  have a: "Dead p \<longleftrightarrow>
      EchoBeat p \<noteq> 0 \<and> SentBeat p \<noteq> 0 \<and>
      sint (Heartrate p * 2) < sint (SentBeat p - EchoBeat p)"
    by (rule Dead_word)
  have b: "EchoBeat p = 0 \<or> SentBeat p = 0 \<longrightarrow> \<not> Dead p"
    using a by blast
  have c: "Dead p \<longleftrightarrow>
         EchoBeat p \<noteq> 0 \<and> SentBeat p \<noteq> 0 \<and>
         2 * sint (Heartrate p) < sint (SentBeat p) - sint (EchoBeat p)"
    if "- (2 ^ 63) \<le> sint (SentBeat p) - sint (EchoBeat p)"
       "sint (SentBeat p) - sint (EchoBeat p) < 2 ^ 63"
       "- (2 ^ 63) \<le> 2 * sint (Heartrate p)" "2 * sint (Heartrate p) < 2 ^ 63"
    using that a by (simp add: sint_sub_no_overflow sint_dbl_no_overflow)
  show ?thesis using a b c by blast
qed

theorem Dead_iff_witness:
  "Dead pm_late \<and> \<not> Dead (pm_late\<lparr>EchoBeat := 0\<rparr>) \<and> \<not> Dead (pm_late\<lparr>SentBeat := 1200\<rparr>)"
  using Dead_iff [of pm_late] Dead_iff [of "pm_late\<lparr>EchoBeat := 0\<rparr>"]
    Dead_iff [of "pm_late\<lparr>SentBeat := 1200\<rparr>"]
  by (simp add: pm_late_def)

lemma StartAsync_stop:
  "StartAsync p wg w = (p1, wg1, w1, d) \<Longrightarrow>
     \<exists>c. stop p1 = Some c \<and> chans w1 c = Some ChanOpen"
  by (auto simp: StartAsync_def make_chan_def emit_def Let_def split: prod.splits)

lemma Stop_times_stopped:
  "stop p = None \<Longrightarrow> Stop_times k p w = Returned (p, w)"
  by (induction k) (simp_all add: Stop_def)

lemma Stop_open:
  "stop p = Some c \<Longrightarrow> chans w c = Some ChanOpen \<Longrightarrow>
     Stop p w = Returned (p\<lparr>stop := None\<rparr>,
        emit (ChanClose c) (w\<lparr>chans := (chans w)(c \<mapsto> ChanClosed)\<rparr>))"
  by (simp add: Stop_def close_chan_def)

text \<open>
  C8. A pacemaker that \<open>StartAsync\<close> has started holds an open stop channel \<open>c\<close>. Any
  number \<open>k \<ge> 1\<close> of calls of \<open>Stop\<close> returns without a panic and leaves exactly what
  one call leaves: the channel closed, by the one \<open>close\<close> that the trace gained, and the
  \<open>stop\<close> field nil. The first call closes, every further call does nothing.
\<close>

theorem Stop_idempotent:
  "1 \<le> k \<Longrightarrow>
     (case StartAsync p wg w of
        (p1, wg1, w1, d) \<Rightarrow>
          \<exists>c. stop p1 = Some c \<and> chans w1 c = Some ChanOpen \<and>
            Stop_times k p1 w1 =
              Returned (p1\<lparr>stop := None\<rparr>,
                w1\<lparr>chans := (chans w1)(c \<mapsto> ChanClosed), trace := trace w1 @ [ChanClose c]\<rparr>) \<and>
            Stop_times k p1 w1 = Stop p1 w1)"
proof -
  assume k1: "1 \<le> k"
  obtain p1 wg1 w1 d where sa: "StartAsync p wg w = (p1, wg1, w1, d)"
    by (cases "StartAsync p wg w") auto
  then obtain c where c: "stop p1 = Some c" "chans w1 c = Some ChanOpen"
    using StartAsync_stop by blast
  from k1 obtain j where k: "k = Suc j" by (cases k) auto
  have "Stop_times k p1 w1 = Stop p1 w1"
    using c by (simp add: k Stop_open Stop_times_stopped)
  with c sa show ?thesis by (auto simp: Stop_open emit_def)
qed

theorem Stop_idempotent_witness:
  "(1::nat) \<le> 3 \<and>
   (case StartAsync pm_fresh (Some 0) world0 of
      (p1, wg1, w1, d) \<Rightarrow>
        \<exists>c. stop p1 = Some c \<and> chans w1 c = Some ChanOpen \<and>
          Stop_times 3 p1 w1 =
            Returned (p1\<lparr>stop := None\<rparr>,
              w1\<lparr>chans := (chans w1)(c \<mapsto> ChanClosed), trace := trace w1 @ [ChanClose c]\<rparr>) \<and>
          Stop_times 3 p1 w1 = Stop p1 w1)"
  using Stop_idempotent [of 3 pm_fresh "Some 0" world0] by simp

section \<open>The pacemaker: the loop\<close>

lemma pm_loop_append:
  "pm_loop p pre = (q, Blocked) \<Longrightarrow> pm_loop p (pre @ es) = pm_loop q es"
  by (induction p pre rule: pm_loop.induct) (auto simp: Let_def split: if_splits)

lemma pm_loop_Returned:
  "pm_loop p es = (p', Returned r) \<Longrightarrow>
     \<exists>pre ev post q. es = pre @ ev # post \<and> pm_loop p pre = (q, Blocked) \<and>
       (ev = StopClosed \<and> r = None \<and> p' = q \<or>
        (\<exists>err. ev = TickPaceErr err \<and> r = Some err \<and> p' = q) \<or>
        (\<exists>now. ev = TickPaced now \<and> r = Some ErrDead \<and> p' = q\<lparr>SentBeat := now\<rparr> \<and> Dead p'))"
proof (induction p es rule: pm_loop.induct)
  case (1 p)
  then show ?case by simp
next
  case (2 p es)
  then have "r = None" "p' = p" by auto
  then have "StopClosed # es = [] @ StopClosed # es \<and> pm_loop p [] = (p, Blocked) \<and> r = None \<and> p' = p"
    by simp
  then show ?case by blast
next
  case (3 p err es)
  then have "r = Some err" "p' = p" by auto
  then have "TickPaceErr err # es = [] @ TickPaceErr err # es \<and> pm_loop p [] = (p, Blocked) \<and> r = Some err \<and> p' = p"
    by simp
  then show ?case by blast
next
  case (4 p now es)
  show ?case
  proof (cases "Dead (p\<lparr>SentBeat := now\<rparr>)")
    case True
    with 4(2) have "r = Some ErrDead" "p' = p\<lparr>SentBeat := now\<rparr>" by (auto simp: Let_def)
    with True have "TickPaced now # es = [] @ TickPaced now # es \<and> pm_loop p [] = (p, Blocked) \<and>
        r = Some ErrDead \<and> p' = p\<lparr>SentBeat := now\<rparr> \<and> Dead p'"
      by simp
    then show ?thesis by blast
  next
    case False
    with 4(2) have "pm_loop (p\<lparr>SentBeat := now\<rparr>) es = (p', Returned r)" by (simp add: Let_def)
    from 4(1)[OF refl False this] obtain pre ev post q where
      h: "es = pre @ ev # post" "pm_loop (p\<lparr>SentBeat := now\<rparr>) pre = (q, Blocked)"
       "(ev = StopClosed \<and> r = None \<and> p' = q \<or>
        (\<exists>err. ev = TickPaceErr err \<and> r = Some err \<and> p' = q) \<or>
        (\<exists>now. ev = TickPaced now \<and> r = Some ErrDead \<and> p' = q\<lparr>SentBeat := now\<rparr> \<and> Dead p'))"
      by blast
    have "TickPaced now # es = (TickPaced now # pre) @ ev # post" using h(1) by simp
    moreover have "pm_loop p (TickPaced now # pre) = (q, Blocked)" using h(2) False by (simp add: Let_def)
    ultimately show ?thesis using h(3) by blast
  qed
next
  case (5 p now es)
  from 5(2) have "pm_loop (Echo p now) es = (p', Returned r)" by simp
  from 5(1)[OF this] obtain pre ev post q where
      h: "es = pre @ ev # post" "pm_loop (Echo p now) pre = (q, Blocked)"
       "(ev = StopClosed \<and> r = None \<and> p' = q \<or>
        (\<exists>err. ev = TickPaceErr err \<and> r = Some err \<and> p' = q) \<or>
        (\<exists>now. ev = TickPaced now \<and> r = Some ErrDead \<and> p' = q\<lparr>SentBeat := now\<rparr> \<and> Dead p'))"
      by blast
  have "EchoAt now # es = (EchoAt now # pre) @ ev # post" using h(1) by simp
  moreover have "pm_loop p (EchoAt now # pre) = (q, Blocked)" using h(2) by simp
  ultimately show ?case using h(3) by blast
qed

lemma pm_loop_EchoBeat:
  "pm_loop p es = (p', r) \<Longrightarrow> EchoBeat p' = EchoBeat p \<or> EchoAt (EchoBeat p') \<in> set es"
  by (induction p es arbitrary: p' r rule: pm_loop.induct)
     (auto simp: Let_def Echo_def split: if_splits)

lemma Dead_int:
  assumes "in_range (SentBeat p)" "in_range (EchoBeat p)"
    "0 < sint (Heartrate p)" "sint (Heartrate p) < 2 ^ 62"
  shows "Dead p \<longleftrightarrow> 2 * sint (Heartrate p) < sint (SentBeat p) - sint (EchoBeat p)"
proof -
  have nz: "SentBeat p \<noteq> 0" "EchoBeat p \<noteq> 0" using assms(1,2) by (auto simp: in_range_def)
  have d: "sint (SentBeat p - EchoBeat p) = sint (SentBeat p) - sint (EchoBeat p)"
    using assms(1,2) by (intro sint_sub_no_overflow) (auto simp: in_range_def)
  have m: "sint (Heartrate p * 2) = 2 * sint (Heartrate p)"
    using assms(3,4) by (intro sint_dbl_no_overflow) auto
  show ?thesis using nz d m by (simp add: Dead_word)
qed

lemma fresh_echo_not_Dead:
  "0 < sint (Heartrate q0) \<Longrightarrow> sint (Heartrate q0) < 2 ^ 62 \<Longrightarrow>
     in_range (EchoBeat q0) \<Longrightarrow> stamps_in_range (pre @ TickPaced t # post) \<Longrightarrow>
     fresh_echo (sint (Heartrate q0)) (EchoBeat q0) (pre @ TickPaced t # post) \<Longrightarrow>
     pm_loop q0 pre = (q, Blocked) \<Longrightarrow> \<not> Dead (q\<lparr>SentBeat := t\<rparr>)"
proof (induction q0 pre rule: pm_loop.induct)
  case (1 p)
  then have q: "q = p" by simp
  have "in_range t" using 1(4) by simp
  moreover have "sint t - sint (EchoBeat p) \<le> 2 * sint (Heartrate p)" using 1(5) by simp
  ultimately show ?case using 1(1,2,3) unfolding q by (subst Dead_int) simp_all
next
  case (2 p es)
  then show ?case by simp
next
  case (3 p err es)
  then show ?case by simp
next
  case (4 p now es)
  from 4(7) have nd: "\<not> Dead (p\<lparr>SentBeat := now\<rparr>)" and
    l: "pm_loop (p\<lparr>SentBeat := now\<rparr>) es = (q, Blocked)"
    by (simp_all add: Let_def split: if_splits)
  show ?case
    using 4(1)[OF refl nd] 4(2-6) l by simp
next
  case (5 p now es)
  from 5(7) have l: "pm_loop (Echo p now) es = (q, Blocked)" by simp
  show ?case
    using 5(1) 5(2-6) l by (simp add: Echo_def)
qed

lemma pacemaker_start_loop:
  "0 < sint (Heartrate p) \<Longrightarrow> pm_loop (Echo p now0) script = (p', Returned r) \<Longrightarrow>
     pacemaker_start p (Some (Suc n)) now0 script = (p', Some n, Returned r)"
  by (simp add: pacemaker_start_def wg_Done_def)

lemma pacemaker_start_Blocked:
  "0 < sint (Heartrate p) \<Longrightarrow> pm_loop (Echo p now0) script = (p', Blocked) \<Longrightarrow>
     pacemaker_start p wg now0 script = (p', wg, Blocked)"
  by (simp add: pacemaker_start_def)

lemma pacemaker_start_Returned:
  "0 < sint (Heartrate p) \<Longrightarrow> pacemaker_start p (Some (Suc n)) now0 script = (p', wg', Returned r) \<Longrightarrow>
     pm_loop (Echo p now0) script = (p', Returned r) \<and> wg' = Some n"
  by (auto simp: pacemaker_start_def wg_Done_def split: prod.splits outcome.splits)

lemma three_ticks_dead:
  assumes h: "0 < sint (Heartrate p)" "sint (Heartrate p) < 2 ^ 62"
    and r: "in_range now0" "in_range t1" "in_range t2" "in_range t3"
    and T: "sint now0 < sint T0 + sint (Heartrate p)"
      "sint T0 + 3 * sint (Heartrate p) \<le> sint t3"
  shows "\<exists>p'. pm_loop (Echo p now0) (TickPaced t1 # TickPaced t2 # TickPaced t3 # rest)
            = (p', Returned (Some ErrDead)) \<and> SentBeat p' \<in> {t1, t2, t3} \<and> Dead p'"
proof -
  let ?q = "p\<lparr>EchoBeat := now0\<rparr>"
  have d3: "Dead (?q\<lparr>SentBeat := t3\<rparr>)"
    using h r T by (subst Dead_int) simp_all
  show ?thesis
  proof (cases "Dead (?q\<lparr>SentBeat := t1\<rparr>)")
    case True
    then show ?thesis by (simp add: Echo_def Let_def)
  next
    case n1: False
    show ?thesis
    proof (cases "Dead (?q\<lparr>SentBeat := t2\<rparr>)")
      case True
      with n1 show ?thesis by (simp add: Echo_def Let_def)
    next
      case False
      with n1 d3 show ?thesis by (simp add: Echo_def Let_def)
    qed
  qed
qed

text \<open>
  C6. With a positive heartrate (\<open>time.NewTicker\<close> panics otherwise) and a wait group
  that counts the pacemaker: when \<open>start\<close> returns, the wait group has been left once
  and the value is that of exactly one exit of the loop. After turns that did not end the
  loop (\<open>pre\<close>), the turn \<open>ev\<close> is the stop channel closed, and the value is nil; or a
  tick whose \<open>Pace\<close> failed, and the value is that error; or a tick whose \<open>Pace\<close>
  succeeded and after which \<open>Dead\<close> is true, and the value is \<open>ErrDead\<close>. Each of the
  three turns gives its value. Before any turn (the empty script) \<open>EchoBeat\<close> is already
  the clock at the call; whatever follows, \<open>EchoBeat\<close> is that stamp or the stamp of a
  later echo, never the value found at the call. So a first tick stamped at most twice
  the heartrate after the call does not end the loop.
\<close>

theorem pacemaker_exit_values:
  assumes "0 < sint (Heartrate p)"
  shows
   "(pacemaker_start p (Some (Suc n)) now0 script = (p', wg', Returned r) \<longrightarrow>
       wg' = Some n \<and>
       (\<exists>pre ev post q. script = pre @ ev # post \<and> pm_loop (Echo p now0) pre = (q, Blocked) \<and>
          (ev = StopClosed \<and> r = None \<and> p' = q \<or>
           (\<exists>err. ev = TickPaceErr err \<and> r = Some err \<and> p' = q) \<or>
           (\<exists>now. ev = TickPaced now \<and> r = Some ErrDead \<and> p' = q\<lparr>SentBeat := now\<rparr> \<and> Dead p')))) \<and>
    (pm_loop (Echo p now0) pre = (q, Blocked) \<longrightarrow>
       pacemaker_start p (Some (Suc n)) now0 (pre @ StopClosed # post) = (q, Some n, Returned None) \<and>
       pacemaker_start p (Some (Suc n)) now0 (pre @ TickPaceErr err # post)
         = (q, Some n, Returned (Some err)) \<and>
       (Dead (q\<lparr>SentBeat := now\<rparr>) \<longrightarrow>
          pacemaker_start p (Some (Suc n)) now0 (pre @ TickPaced now # post)
            = (q\<lparr>SentBeat := now\<rparr>, Some n, Returned (Some ErrDead)))) \<and>
    pacemaker_start p wg now0 [] = (p\<lparr>EchoBeat := now0\<rparr>, wg, Blocked) \<and>
    (pacemaker_start p wg now0 script = (p', wg', res) \<longrightarrow>
       EchoBeat p' = now0 \<or> EchoAt (EchoBeat p') \<in> set script) \<and>
    (in_range now0 \<and> in_range t \<and> sint (Heartrate p) < 2 ^ 62 \<and>
     sint t - sint now0 \<le> 2 * sint (Heartrate p) \<longrightarrow>
       pacemaker_start p wg now0 [TickPaced t] = (p\<lparr>EchoBeat := now0, SentBeat := t\<rparr>, wg, Blocked))"
proof -
  have a: "wg' = Some n \<and>
       (\<exists>pre ev post q. script = pre @ ev # post \<and> pm_loop (Echo p now0) pre = (q, Blocked) \<and>
          (ev = StopClosed \<and> r = None \<and> p' = q \<or>
           (\<exists>err. ev = TickPaceErr err \<and> r = Some err \<and> p' = q) \<or>
           (\<exists>now. ev = TickPaced now \<and> r = Some ErrDead \<and> p' = q\<lparr>SentBeat := now\<rparr> \<and> Dead p')))"
    if "pacemaker_start p (Some (Suc n)) now0 script = (p', wg', Returned r)"
    using pacemaker_start_Returned [OF assms that] pm_loop_Returned [of "Echo p now0" script p' r]
    by blast
  have b1: "pacemaker_start p (Some (Suc n)) now0 (pre @ StopClosed # post) = (q, Some n, Returned None)"
    if "pm_loop (Echo p now0) pre = (q, Blocked)"
    using assms that by (simp add: pacemaker_start_loop pm_loop_append)
  have b2: "pacemaker_start p (Some (Suc n)) now0 (pre @ TickPaceErr err # post)
         = (q, Some n, Returned (Some err))"
    if "pm_loop (Echo p now0) pre = (q, Blocked)"
    using assms that by (simp add: pacemaker_start_loop pm_loop_append)
  have b3: "pacemaker_start p (Some (Suc n)) now0 (pre @ TickPaced now # post)
            = (q\<lparr>SentBeat := now\<rparr>, Some n, Returned (Some ErrDead))"
    if "pm_loop (Echo p now0) pre = (q, Blocked)" "Dead (q\<lparr>SentBeat := now\<rparr>)"
    using assms that by (simp add: pacemaker_start_loop pm_loop_append Let_def)
  have c: "pacemaker_start p wg now0 [] = (p\<lparr>EchoBeat := now0\<rparr>, wg, Blocked)"
    using assms by (simp add: pacemaker_start_Blocked Echo_def)
  have d: "EchoBeat p' = now0 \<or> EchoAt (EchoBeat p') \<in> set script"
    if h: "pacemaker_start p wg now0 script = (p', wg', res)"
  proof -
    obtain r0 where "pm_loop (Echo p now0) script = (p', r0)"
      using h assms
      by (auto simp: pacemaker_start_def split: prod.splits outcome.splits option.splits)
    from pm_loop_EchoBeat [OF this] show ?thesis by (simp add: Echo_def)
  qed
  have e: "pacemaker_start p wg now0 [TickPaced t] = (p\<lparr>EchoBeat := now0, SentBeat := t\<rparr>, wg, Blocked)"
    if "in_range now0" "in_range t" "sint (Heartrate p) < 2 ^ 62"
      "sint t - sint now0 \<le> 2 * sint (Heartrate p)"
  proof -
    have "\<not> Dead (p\<lparr>EchoBeat := now0, SentBeat := t\<rparr>)"
      using that assms by (subst Dead_int) simp_all
    then have "pm_loop (Echo p now0) [TickPaced t] = (p\<lparr>EchoBeat := now0, SentBeat := t\<rparr>, Blocked)"
      by (simp add: Echo_def Let_def)
    then show ?thesis using assms by (rule pacemaker_start_Blocked [rotated])
  qed
  show ?thesis using a b1 b2 b3 c d e by blast
qed

theorem pacemaker_exit_values_witness:
  "0 < sint (Heartrate pm40) \<and>
   pacemaker_start pm40 (Some (Suc 0)) 1000000000 [TickPaced 1040100000, StopClosed]
     = (pm40\<lparr>EchoBeat := 1000000000, SentBeat := 1040100000\<rparr>, Some 0, Returned None) \<and>
   pacemaker_start pm40 (Some (Suc 0)) 1000000000
       [TickPaced 1040100000, TickPaceErr (Ext ''write timeout'')]
     = (pm40\<lparr>EchoBeat := 1000000000, SentBeat := 1040100000\<rparr>, Some 0,
        Returned (Some (Ext ''write timeout''))) \<and>
   pacemaker_start pm40 (Some (Suc 0)) 1000000000 [TickPaced 1040100000, TickPaced 1080100000]
     = (pm40\<lparr>EchoBeat := 1000000000, SentBeat := 1080100000\<rparr>, Some 0,
        Returned (Some ErrDead)) \<and>
   pacemaker_start pm40 (Some (Suc 0)) 1000000000 [TickPaced 1040100000]
     = (pm40\<lparr>EchoBeat := 1000000000, SentBeat := 1040100000\<rparr>, Some (Suc 0), Blocked) \<and>
   (\<exists>pre post.
      [TickPaced 1040100000, StopClosed] = pre @ StopClosed # post \<and>
      pm_loop (Echo pm40 1000000000) pre
        = (pm40\<lparr>EchoBeat := 1000000000, SentBeat := 1040100000\<rparr>, Blocked))"
proof -
  have h: "0 < sint (Heartrate pm40)" by (simp add: pm40_def)
  have pre: "pm_loop (Echo pm40 1000000000) [TickPaced 1040100000]
      = (pm40\<lparr>EchoBeat := 1000000000, SentBeat := 1040100000\<rparr>, Blocked)"
    by (simp add: pm40_def Echo_def Dead_def word_sless_alt)
  have d: "Dead (pm40\<lparr>EchoBeat := 1000000000, SentBeat := 1040100000, SentBeat := 1080100000\<rparr>)"
    by (simp add: pm40_def Dead_def word_sless_alt)
  have r: "in_range 1000000000 \<and> in_range 1040100000 \<and> sint (Heartrate pm40) < 2 ^ 62 \<and>
      sint (1040100000 :: Time) - sint (1000000000 :: Time) \<le> 2 * sint (Heartrate pm40)"
    by (simp add: pm40_def in_range_def)
  have eqs: "pacemaker_start pm40 (Some (Suc 0)) 1000000000 [TickPaced 1040100000, StopClosed]
     = (pm40\<lparr>EchoBeat := 1000000000, SentBeat := 1040100000\<rparr>, Some 0, Returned None) \<and>
   pacemaker_start pm40 (Some (Suc 0)) 1000000000
       [TickPaced 1040100000, TickPaceErr (Ext ''write timeout'')]
     = (pm40\<lparr>EchoBeat := 1000000000, SentBeat := 1040100000\<rparr>, Some 0,
        Returned (Some (Ext ''write timeout''))) \<and>
   pacemaker_start pm40 (Some (Suc 0)) 1000000000 [TickPaced 1040100000, TickPaced 1080100000]
     = (pm40\<lparr>EchoBeat := 1000000000, SentBeat := 1080100000\<rparr>, Some 0,
        Returned (Some ErrDead)) \<and>
   pacemaker_start pm40 (Some (Suc 0)) 1000000000 [TickPaced 1040100000]
     = (pm40\<lparr>EchoBeat := 1000000000, SentBeat := 1040100000\<rparr>, Some (Suc 0), Blocked)"
    using pacemaker_exit_values [OF h, where n = 0 and ?now0.0 = 1000000000
        and pre = "[TickPaced 1040100000]"
        and q = "pm40\<lparr>EchoBeat := 1000000000, SentBeat := 1040100000\<rparr>"
        and post = "[]" and err = "Ext ''write timeout''" and now = 1080100000
        and wg = "Some (Suc 0)" and t = 1040100000]
      h pre d r
    by simp
  from pacemaker_exit_values [OF h, where n = 0 and ?now0.0 = 1000000000
        and script = "[TickPaced 1040100000, StopClosed]"
        and p' = "pm40\<lparr>EchoBeat := 1000000000, SentBeat := 1040100000\<rparr>"
        and wg' = "Some 0" and r = None, THEN conjunct1] eqs
  have "\<exists>pre ev post q. [TickPaced 1040100000, StopClosed] = pre @ ev # post \<and>
      pm_loop (Echo pm40 1000000000) pre = (q, Blocked) \<and> ev = StopClosed \<and>
      pm40\<lparr>EchoBeat := 1000000000, SentBeat := 1040100000\<rparr> = q"
    by auto
  then have ex: "\<exists>pre post.
      [TickPaced 1040100000, StopClosed] = pre @ StopClosed # post \<and>
      pm_loop (Echo pm40 1000000000) pre
        = (pm40\<lparr>EchoBeat := 1000000000, SentBeat := 1040100000\<rparr>, Blocked)"
    by blast
  show ?thesis using h eqs ex by blast
qed

text \<open>
  C5, as stated, fails in its second half. On a Hello of 40 ms, the initial echo at
  1.0000 s, heartbeats stamped at 1.0401 s and 1.0801 s, each acknowledged 60 ms later
  (within twice the heartrate): at the second tick the ack of the first heartbeat has not
  arrived, the initial echo is 80.1 ms old, and the loop returns \<open>ErrDead\<close>.
\<close>

theorem pacemaker_liveness_counterexample:
  "snd (snd (pacemaker_start pm40 (Some 1) 1000000000
       [TickPaced 1040100000, TickPaced 1080100000, EchoAt 1100100000, EchoAt 1140100000]))
     = Returned (Some ErrDead) \<and>
   (1100100000 :: int) - 1040100000 \<le> 2 * sint (Heartrate pm40) \<and>
   (1140100000 :: int) - 1080100000 \<le> 2 * sint (Heartrate pm40)"
  by (simp add: pacemaker_start_def pm40_def Echo_def Dead_def word_sless_alt wg_Done_def)

text \<open>
  C5, amended. Heartrate positive, stamps in range. If \<open>EchoBeat\<close> is never restamped
  after the initial \<open>Echo\<close> and \<open>Pace\<close> succeeds, and the ticks are punctual (the ticker
  was made at \<open>T0\<close>, less than one heartrate before the initial echo, and the \<open>k\<close>-th tick
  is stamped at \<open>T0 + k * Heartrate\<close> or later), then the loop returns \<open>ErrDead\<close> no
  later than the third tick, after at most two heartbeats went unanswered, whatever the
  script holds after that tick: it exits once. Conversely, if at every tick that the
  loop reaches the heartbeat just sent is stamped at most twice the heartrate after the
  last echo, every check of \<open>Dead\<close> in the loop is false and, \<open>Pace\<close> not returning
  \<open>ErrDead\<close> itself, \<open>start\<close> never returns \<open>ErrDead\<close>. (An ack that arrives within twice
  the heartrate of its heartbeat is not enough.)
\<close>

theorem pacemaker_liveness:
  assumes "0 < sint (Heartrate p)" "sint (Heartrate p) < 2 ^ 62" "in_range now0"
  shows
   "(in_range t1 \<and> in_range t2 \<and> in_range t3 \<and>
     sint T0 \<le> sint now0 \<and> sint now0 < sint T0 + sint (Heartrate p) \<and>
     sint T0 + sint (Heartrate p) \<le> sint t1 \<and>
     sint T0 + 2 * sint (Heartrate p) \<le> sint t2 \<and>
     sint T0 + 3 * sint (Heartrate p) \<le> sint t3 \<longrightarrow>
       (\<exists>p'. pacemaker_start p (Some (Suc n)) now0
                (TickPaced t1 # TickPaced t2 # TickPaced t3 # rest)
              = (p', Some n, Returned (Some ErrDead)) \<and>
             SentBeat p' \<in> {t1, t2, t3} \<and> Dead p')) \<and>
    (stamps_in_range script \<and> fresh_echo (sint (Heartrate p)) now0 script \<longrightarrow>
       (\<forall>pre t post q. script = pre @ TickPaced t # post \<and>
            pm_loop (Echo p now0) pre = (q, Blocked) \<longrightarrow> \<not> Dead (q\<lparr>SentBeat := t\<rparr>)) \<and>
       (TickPaceErr ErrDead \<notin> set script \<longrightarrow>
          snd (snd (pacemaker_start p wg now0 script)) \<noteq> Returned (Some ErrDead)))"
proof -
  have a: "\<exists>p'. pacemaker_start p (Some (Suc n)) now0
                (TickPaced t1 # TickPaced t2 # TickPaced t3 # rest)
              = (p', Some n, Returned (Some ErrDead)) \<and>
             SentBeat p' \<in> {t1, t2, t3} \<and> Dead p'"
    if "in_range t1" "in_range t2" "in_range t3"
      "sint now0 < sint T0 + sint (Heartrate p)" "sint T0 + 3 * sint (Heartrate p) \<le> sint t3"
  proof -
    from three_ticks_dead [OF assms(1,2,3) that, of rest] obtain p' where
      p': "pm_loop (Echo p now0) (TickPaced t1 # TickPaced t2 # TickPaced t3 # rest)
            = (p', Returned (Some ErrDead))" "SentBeat p' \<in> {t1, t2, t3}" "Dead p'"
      by blast
    from pacemaker_start_loop [OF assms(1) p'(1), of n] p'(2,3) show ?thesis by blast
  qed
  have b: "\<not> Dead (q\<lparr>SentBeat := t\<rparr>)"
    if "stamps_in_range script" "fresh_echo (sint (Heartrate p)) now0 script"
      "script = pre @ TickPaced t # post" "pm_loop (Echo p now0) pre = (q, Blocked)"
    for pre t post q
    using fresh_echo_not_Dead [of "Echo p now0" pre t post q] assms that
    by (simp add: Echo_def)
  have c: "snd (snd (pacemaker_start p wg now0 script)) \<noteq> Returned (Some ErrDead)"
    if s: "stamps_in_range script" "fresh_echo (sint (Heartrate p)) now0 script"
      and e: "TickPaceErr ErrDead \<notin> set script"
  proof
    assume x: "snd (snd (pacemaker_start p wg now0 script)) = Returned (Some ErrDead)"
    then obtain p' where "pm_loop (Echo p now0) script = (p', Returned (Some ErrDead))"
      using assms(1)
      by (auto simp: pacemaker_start_def split: prod.splits outcome.splits option.splits)
    from pm_loop_Returned [OF this] obtain pre ev post q where
      y: "script = pre @ ev # post" "pm_loop (Echo p now0) pre = (q, Blocked)"
        "ev = TickPaceErr ErrDead \<or> (\<exists>now. ev = TickPaced now \<and> Dead (q\<lparr>SentBeat := now\<rparr>))"
      by auto
    from y(3) show False
    proof
      assume "ev = TickPaceErr ErrDead"
      with y(1) e show False by simp
    next
      assume "\<exists>now. ev = TickPaced now \<and> Dead (q\<lparr>SentBeat := now\<rparr>)"
      then obtain now where "ev = TickPaced now" "Dead (q\<lparr>SentBeat := now\<rparr>)" by blast
      with b [OF s _ y(2), of now post] y(1) show False by simp
    qed
  qed
  show ?thesis using a b c by blast
qed

theorem pacemaker_liveness_witness:
  "0 < sint (Heartrate pm40) \<and> sint (Heartrate pm40) < 2 ^ 62 \<and> in_range 1000000000 \<and>
   (\<exists>p'. pacemaker_start pm40 (Some (Suc 0)) 1000000000
            [TickPaced 1039999000, TickPaced 1079999000, TickPaced 1119999000]
          = (p', Some 0, Returned (Some ErrDead)) \<and>
         SentBeat p' \<in> {1039999000, 1079999000, 1119999000} \<and> Dead p') \<and>
   snd (snd (pacemaker_start pm40 (Some (Suc 0)) 1000000000
       [TickPaced 1040100000, EchoAt 1050000000, TickPaced 1080100000, EchoAt 1090000000,
        TickPaced 1120100000])) \<noteq> Returned (Some ErrDead)"
proof -
  have h: "0 < sint (Heartrate pm40)" "sint (Heartrate pm40) < 2 ^ 62" "in_range 1000000000"
    by (simp_all add: pm40_def in_range_def)
  have a: "in_range 1039999000 \<and> in_range 1079999000 \<and> in_range 1119999000 \<and>
     sint (999998000 :: Time) \<le> sint (1000000000 :: Time) \<and>
     sint (1000000000 :: Time) < sint (999998000 :: Time) + sint (Heartrate pm40) \<and>
     sint (999998000 :: Time) + sint (Heartrate pm40) \<le> sint (1039999000 :: Time) \<and>
     sint (999998000 :: Time) + 2 * sint (Heartrate pm40) \<le> sint (1079999000 :: Time) \<and>
     sint (999998000 :: Time) + 3 * sint (Heartrate pm40) \<le> sint (1119999000 :: Time)"
    by (simp add: pm40_def in_range_def)
  have b: "stamps_in_range [TickPaced 1040100000, EchoAt 1050000000, TickPaced 1080100000,
        EchoAt 1090000000, TickPaced 1120100000] \<and>
     fresh_echo (sint (Heartrate pm40)) 1000000000
       [TickPaced 1040100000, EchoAt 1050000000, TickPaced 1080100000, EchoAt 1090000000,
        TickPaced 1120100000] \<and>
     TickPaceErr ErrDead \<notin> set [TickPaced 1040100000, EchoAt 1050000000, TickPaced 1080100000,
        EchoAt 1090000000, TickPaced 1120100000]"
    by (simp add: pm40_def in_range_def)
  show ?thesis
    using pacemaker_liveness [OF h, of 1039999000 1079999000 1119999000 999998000 0 "[]"
        "[TickPaced 1040100000, EchoAt 1050000000, TickPaced 1080100000, EchoAt 1090000000,
          TickPaced 1120100000]" "Some (Suc 0)"] h a b
    by blast
qed

section \<open>The session: login\<close>

text \<open>
  C9. When \<open>client.Login\<close> answers without an error and reports that MFA is required (no
  token, or the MFA flag), \<open>Login\<close> with an empty \<open>mfa\<close> fails with the sentinel \<open>ErrMFA\<close>
  itself, not with a wrapped error. When it answers with a token and without the MFA
  flag, \<open>Login\<close> is \<open>New\<close> of that token, whatever \<open>mfa\<close> and \<open>client.TOTP\<close> are: with a
  gateway made, the session of that token.
\<close>

theorem Login_mfa:
  "(client_login email password = Inr l \<and> (Token l = [] \<or> MFA l) \<longrightarrow>
      Login client_login client_totp new_gateway email password [] = Inl ErrMFA \<and>
      (\<forall>err msg. Login client_login client_totp new_gateway email password [] \<noteq> Inl (Wrap err msg))) \<and>
   (client_login email password = Inr l \<and> Token l \<noteq> [] \<and> \<not> MFA l \<longrightarrow>
      Login client_login client_totp new_gateway email password mfa = New new_gateway (Token l) \<and>
      (\<forall>g. new_gateway (Token l) = Inr g \<longrightarrow>
         Login client_login client_totp new_gateway email password mfa
           = Inr \<lparr>Client = Token l, Gateway = g\<rparr>))"
  by (auto simp: Login_def New_def)

theorem Login_mfa_witness:
  "login_needs_mfa ''a@b.c'' ''secret'' = Inr \<lparr>Token = [], MFA = True, Ticket = ''ticket''\<rparr> \<and>
   Login login_needs_mfa totp_down new_gateway_ok ''a@b.c'' ''secret'' [] = Inl ErrMFA \<and>
   login_token ''a@b.c'' ''secret'' = Inr \<lparr>Token = ''token'', MFA = False, Ticket = []\<rparr> \<and>
   Login login_token totp_down new_gateway_ok ''a@b.c'' ''secret'' ''123456''
     = Inr \<lparr>Client = ''token'', Gateway = gateway0\<rparr>"
  using Login_mfa [of login_needs_mfa "''a@b.c''" "''secret''"
      "\<lparr>Token = [], MFA = True, Ticket = ''ticket''\<rparr>" totp_down new_gateway_ok]
    Login_mfa [of login_token "''a@b.c''" "''secret''"
      "\<lparr>Token = ''token'', MFA = False, Ticket = []\<rparr>" totp_down new_gateway_ok "''123456''"]
  by (auto simp: login_needs_mfa_def login_token_def new_gateway_ok_def)

section \<open>The gateway: start, Start and Close\<close>

lemma StartAsync_eq:
  "StartAsync p wg w =
     (p\<lparr>stop := Some (Suc (next_chan w)), death := Some (next_chan w)\<rparr>,
      (case wg of None \<Rightarrow> None | Some n \<Rightarrow> Some (Suc n)),
      w\<lparr>chans := (chans w)(next_chan w \<mapsto> ChanOpen, Suc (next_chan w) \<mapsto> ChanOpen),
        next_chan := Suc (Suc (next_chan w)),
        trace := trace w @ [GoPacemaker (Suc (next_chan w))]\<rparr>,
      next_chan w)"
  by (simp add: StartAsync_def make_chan_def emit_def Let_def)

lemma gateway_start_hello_failed:
  "hello_res e = Inl err \<Longrightarrow>
     gateway_start H g w e = (g, w, Returned (Some (Wrap err ''Error at Hello'')))"
  by (simp add: gateway_start_def Let_def)

lemma gateway_start_auth_failed:
  "hello_res e = Inr rate \<Longrightarrow> auth_res e = Some err \<Longrightarrow>
     gateway_start H g w e =
       (started_g g w rate, started_w g w,
        Returned (Some (Wrap err
          (if SessionID g = [] then ''Failed to identify'' else ''Failed to resume''))))"
  by (simp add: gateway_start_def started_g_def started_w_def StartAsync_eq emit_def Let_def)

lemma gateway_start_first_error:
  "hello_res e = Inr rate \<Longrightarrow> auth_res e = None \<Longrightarrow> Error (first_ev e) = Some err \<Longrightarrow>
     gateway_start H g w e =
       (started_g g w rate, started_w g w, Returned (Some (Wrap err ''First error'')))"
  by (simp add: gateway_start_def started_g_def started_w_def StartAsync_eq emit_def Let_def)

lemma gateway_start_handler_failed:
  "hello_res e = Inr rate \<Longrightarrow> auth_res e = None \<Longrightarrow> Error (first_ev e) = None \<Longrightarrow>
   H (started_g g w rate) (Data (first_ev e)) = (g2, Some err) \<Longrightarrow>
     gateway_start H g w e =
       (g2, started_w g w, Returned (Some (Wrap err ''WS handler error on first event'')))"
  by (simp add: gateway_start_def started_g_def started_w_def StartAsync_eq emit_def Let_def)

lemma gateway_start_nil_waitGroup:
  "hello_res e = Inr rate \<Longrightarrow> auth_res e = None \<Longrightarrow> Error (first_ev e) = None \<Longrightarrow>
   H (started_g g w rate) (Data (first_ev e)) = (g2, None) \<Longrightarrow> waitGroup g2 = None \<Longrightarrow>
     gateway_start H g w e = (g2, started_w g w, Panicked)"
  by (simp add: gateway_start_def started_g_def started_w_def StartAsync_eq emit_def Let_def
        wg_Add1_def)

lemma gateway_start_ok:
  "hello_res e = Inr rate \<Longrightarrow> auth_res e = None \<Longrightarrow> Error (first_ev e) = None \<Longrightarrow>
   H (started_g g w rate) (Data (first_ev e)) = (g2, None) \<Longrightarrow> waitGroup g2 = Some n \<Longrightarrow>
     gateway_start H g w e =
       (g2\<lparr>waitGroup := Some (Suc n)\<rparr>, emit GoHandleWS (started_w g w), Returned None)"
  by (simp add: gateway_start_def started_g_def started_w_def StartAsync_eq emit_def Let_def
        wg_Add1_def)


lemma gateway_start_cases:
  obtains
    (hello_failed) err where "hello_res e = Inl err"
      "gateway_start H g w e = (g, w, Returned (Some (Wrap err ''Error at Hello'')))"
  | (auth_failed) rate err where "hello_res e = Inr rate" "auth_res e = Some err"
      "gateway_start H g w e =
         (started_g g w rate, started_w g w,
          Returned (Some (Wrap err
            (if SessionID g = [] then ''Failed to identify'' else ''Failed to resume''))))"
  | (first_error) rate err where "hello_res e = Inr rate" "auth_res e = None"
      "Error (first_ev e) = Some err"
      "gateway_start H g w e =
         (started_g g w rate, started_w g w, Returned (Some (Wrap err ''First error'')))"
  | (handler_failed) rate g2 err where "hello_res e = Inr rate" "auth_res e = None"
      "Error (first_ev e) = None" "H (started_g g w rate) (Data (first_ev e)) = (g2, Some err)"
      "gateway_start H g w e =
         (g2, started_w g w, Returned (Some (Wrap err ''WS handler error on first event'')))"
  | (nil_waitGroup) rate g2 where "hello_res e = Inr rate" "auth_res e = None"
      "Error (first_ev e) = None" "H (started_g g w rate) (Data (first_ev e)) = (g2, None)"
      "waitGroup g2 = None" "gateway_start H g w e = (g2, started_w g w, Panicked)"
  | (ok) rate g2 n where "hello_res e = Inr rate" "auth_res e = None"
      "Error (first_ev e) = None" "H (started_g g w rate) (Data (first_ev e)) = (g2, None)"
      "waitGroup g2 = Some n"
      "gateway_start H g w e =
         (g2\<lparr>waitGroup := Some (Suc n)\<rparr>, emit GoHandleWS (started_w g w), Returned None)"
proof (cases "hello_res e")
  case (Inl err)
  then show ?thesis using hello_failed gateway_start_hello_failed by blast
next
  case (Inr rate)
  note hello = this
  show ?thesis
  proof (cases "auth_res e")
    case (Some err)
    then show ?thesis using auth_failed hello gateway_start_auth_failed by blast
  next
    case None
    note auth = this
    show ?thesis
    proof (cases "Error (first_ev e)")
      case (Some err)
      then show ?thesis using first_error hello auth gateway_start_first_error by blast
    next
      case None
      note first = this
      obtain g2 r where h: "H (started_g g w rate) (Data (first_ev e)) = (g2, r)"
        by (cases "H (started_g g w rate) (Data (first_ev e))") auto
      show ?thesis
      proof (cases r)
        case (Some err)
        with h show ?thesis
          using handler_failed hello auth first gateway_start_handler_failed by blast
      next
        case None
        note hr = h [unfolded None]
        show ?thesis
        proof (cases "waitGroup g2")
          case None
          then show ?thesis
            using nil_waitGroup hello auth first hr gateway_start_nil_waitGroup by blast
        next
          case (Some n)
          then show ?thesis
            using ok hello auth first hr gateway_start_ok by blast
        qed
      qed
    qed
  qed
qed


lemma Close_started:
  assumes "Pacemaker g = Some p" "stop p = Some c" "chans w c = Some ChanOpen"
    "waitGroup g = Some n" "n = 0 \<or> join_returns e"
  shows "Close g w e =
     (g\<lparr>Pacemaker := Some (p\<lparr>stop := None\<rparr>), waitGroup := None\<rparr>,
      w\<lparr>chans := (chans w)(c \<mapsto> ChanClosed),
        trace := trace w @ [ChanClose c, WaitGroupWait, WSClose]\<rparr>,
      Returned (ws_close_res e))"
  using assms by (auto simp: Close_def Stop_open emit_def Let_def)

lemma gateway_start_error_wrapped:
  assumes "gateway_start H g w e = (g1, w1, Returned (Some err))"
  shows "\<exists>x m. err = Wrap x m"
  using assms by (cases rule: gateway_start_cases [of e H g w]) auto

lemma Start_error_wrapped:
  assumes "Start H g w e = (g', w', Returned (Some err))"
  shows "\<exists>x m. err = Wrap x m"
proof -
  obtain g1 w1 r1 where s: "gateway_start H g w e = (g1, w1, r1)"
    by (cases "gateway_start H g w e") auto
  with assms have "r1 = Returned (Some err)"
    by (auto simp: Start_def split: outcome.splits option.splits prod.splits)
  with s gateway_start_error_wrapped show ?thesis by blast
qed

lemma Start_not_ErrInvalidSession:
  "Start H g w e \<noteq> (g', w', Returned (Some ErrInvalidSession))"
  using Start_error_wrapped [of H g w e g' w' ErrInvalidSession] by auto

lemma Start_ok:
  assumes "hello_res e = Inr rate" "auth_res e = None" "Error (first_ev e) = None"
    "H (started_g g w rate) (Data (first_ev e)) = (g2, None)" "waitGroup g2 = Some n"
  shows "Start H g w e =
     (g2\<lparr>waitGroup := Some (Suc n)\<rparr>, emit GoHandleWS (started_w g w), Returned None)"
  using gateway_start_ok [where e = e and rate = rate and H = H and g = g and w = w
      and ?g2.0 = g2 and n = n] assms
  by (simp add: Start_def)

lemma Start_early_failure:
  assumes h: "hello_res e = Inr rate" "auth_res e \<noteq> None \<or> Error (first_ev e) \<noteq> None"
      "join_returns e"
  shows "\<exists>err.
         gateway_start H g w e = (started_g g w rate, started_w g w, Returned (Some err)) \<and>
         Start H g w e =
           (started_g g w rate
              \<lparr>Pacemaker := Some \<lparr>Heartrate = rate, SentBeat = 0, EchoBeat = 0,
                                    stop = None, death = Some (next_chan w)\<rparr>,
               waitGroup := None\<rparr>,
            (started_w g w)
              \<lparr>chans := (chans (started_w g w))(Suc (next_chan w) \<mapsto> ChanClosed),
               trace := trace (started_w g w) @
                          [ChanClose (Suc (next_chan w)), WaitGroupWait, WSClose]\<rparr>,
            Returned (Some err)) \<and>
         err = (case auth_res e of
                  Some x \<Rightarrow> Wrap x (if SessionID g = [] then ''Failed to identify''
                                      else ''Failed to resume'')
                | None \<Rightarrow> Wrap (the (Error (first_ev e))) ''First error'')"
proof -
  let ?p = "\<lparr>Heartrate = rate, SentBeat = 0, EchoBeat = 0,
        stop = Some (Suc (next_chan w)), death = Some (next_chan w)\<rparr>"
  have st: "Pacemaker (started_g g w rate) = Some ?p" "stop ?p = Some (Suc (next_chan w))"
    "chans (started_w g w) (Suc (next_chan w)) = Some ChanOpen"
    "waitGroup (started_g g w rate) = Some (Suc 0)"
    by (simp_all add: started_g_def started_w_def)
  have "\<exists>err. gateway_start H g w e = (started_g g w rate, started_w g w, Returned (Some err)) \<and>
     err = (case auth_res e of
                  Some x \<Rightarrow> Wrap x (if SessionID g = [] then ''Failed to identify''
                                      else ''Failed to resume'')
                | None \<Rightarrow> Wrap (the (Error (first_ev e))) ''First error'')"
  proof (cases "auth_res e")
    case (Some x)
    then show ?thesis using h(1) by (simp add: gateway_start_auth_failed)
  next
    case None
    with h(2) obtain y where "Error (first_ev e) = Some y" by auto
    with None show ?thesis using h(1) by (simp add: gateway_start_first_error)
  qed
  then obtain err where
    f: "gateway_start H g w e = (started_g g w rate, started_w g w, Returned (Some err))"
     "err = (case auth_res e of
                  Some x \<Rightarrow> Wrap x (if SessionID g = [] then ''Failed to identify''
                                      else ''Failed to resume'')
                | None \<Rightarrow> Wrap (the (Error (first_ev e))) ''First error'')" by blast
  from Close_started [OF st, of e] h(3) f
  show ?thesis by (simp add: Start_def)
qed

lemma gateway_start_demo:
  "gateway_start handler_demo g w env_ok =
      ((started_g g w 40000000)\<lparr>SessionID := ''S'', waitGroup := Some (Suc (Suc 0))\<rparr>,
       emit GoHandleWS (started_w g w), Returned None)"
proof -
  have h: "hello_res env_ok = Inr 40000000" "auth_res env_ok = None"
    "Error (first_ev env_ok) = None" "Data (first_ev env_ok) = [1]"
    by (simp_all add: env_ok_def)
  show ?thesis
    using gateway_start_ok [where e = env_ok and rate = 40000000 and H = handler_demo and g = g
        and w = w and ?g2.0 = "(started_g g w 40000000)\<lparr>SessionID := ''S''\<rparr>" and n = "Suc 0"] h
    by (simp add: handler_demo_def started_g_def)
qed

lemma Start_demo:
  "Start handler_demo g w env_ok =
      ((started_g g w 40000000)\<lparr>SessionID := ''S'', waitGroup := Some (Suc (Suc 0))\<rparr>,
       emit GoHandleWS (started_w g w), Returned None)"
  using gateway_start_demo [of g w] by (simp add: Start_def)



text \<open>
  C10. When \<open>start\<close> has failed with the pacemaker started (its stop channel \<open>c\<close> open,
  the wait group there), and the wait group is left by the others, \<open>Start\<close> returns what
  \<open>Close\<close> leaves: the stop channel closed, then the wait, then the websocket closed, the
  fields \<open>stop\<close> and \<open>waitGroup\<close> nil. Its error is the error of \<open>start\<close>, whatever
  \<open>Close\<close> returned (the result of closing the websocket). A failure of \<open>Identify\<close>, of
  \<open>Resume\<close> or of the first frame is such a failure, whatever \<open>HandleEvent\<close> is.
\<close>

theorem Start_closes_after_failure:
  "(gateway_start H g w e = (g1, w1, Returned (Some err)) \<and>
    Pacemaker g1 = Some p \<and> stop p = Some c \<and> chans w1 c = Some ChanOpen \<and>
    waitGroup g1 = Some n \<and> (n = 0 \<or> join_returns e) \<longrightarrow>
      Close g1 w1 e =
        (g1\<lparr>Pacemaker := Some (p\<lparr>stop := None\<rparr>), waitGroup := None\<rparr>,
         w1\<lparr>chans := (chans w1)(c \<mapsto> ChanClosed),
            trace := trace w1 @ [ChanClose c, WaitGroupWait, WSClose]\<rparr>,
         Returned (ws_close_res e)) \<and>
      Start H g w e =
        (g1\<lparr>Pacemaker := Some (p\<lparr>stop := None\<rparr>), waitGroup := None\<rparr>,
         w1\<lparr>chans := (chans w1)(c \<mapsto> ChanClosed),
            trace := trace w1 @ [ChanClose c, WaitGroupWait, WSClose]\<rparr>,
         Returned (Some err))) \<and>
   (hello_res e = Inr rate \<and> (auth_res e \<noteq> None \<or> Error (first_ev e) \<noteq> None) \<and>
    join_returns e \<longrightarrow>
      (\<exists>g1 w1 g2 w2 err.
         gateway_start H g w e = (g1, w1, Returned (Some err)) \<and>
         Start H g w e = (g2, w2, Returned (Some err)) \<and>
         trace w2 = trace w1 @ [ChanClose (Suc (next_chan w)), WaitGroupWait, WSClose] \<and>
         chans w2 (Suc (next_chan w)) = Some ChanClosed \<and>
         (\<exists>p. Pacemaker g2 = Some p \<and> stop p = None)))"
proof -
  have a: "Close g1 w1 e =
        (g1\<lparr>Pacemaker := Some (p\<lparr>stop := None\<rparr>), waitGroup := None\<rparr>,
         w1\<lparr>chans := (chans w1)(c \<mapsto> ChanClosed),
            trace := trace w1 @ [ChanClose c, WaitGroupWait, WSClose]\<rparr>,
         Returned (ws_close_res e)) \<and>
      Start H g w e =
        (g1\<lparr>Pacemaker := Some (p\<lparr>stop := None\<rparr>), waitGroup := None\<rparr>,
         w1\<lparr>chans := (chans w1)(c \<mapsto> ChanClosed),
            trace := trace w1 @ [ChanClose c, WaitGroupWait, WSClose]\<rparr>,
         Returned (Some err))"
    if "gateway_start H g w e = (g1, w1, Returned (Some err))"
      "Pacemaker g1 = Some p" "stop p = Some c" "chans w1 c = Some ChanOpen"
      "waitGroup g1 = Some n" "n = 0 \<or> join_returns e"
    using that(1) Close_started [OF that(2-6)] by (simp add: Start_def)
  have b: "\<exists>g1 w1 g2 w2 err.
         gateway_start H g w e = (g1, w1, Returned (Some err)) \<and>
         Start H g w e = (g2, w2, Returned (Some err)) \<and>
         trace w2 = trace w1 @ [ChanClose (Suc (next_chan w)), WaitGroupWait, WSClose] \<and>
         chans w2 (Suc (next_chan w)) = Some ChanClosed \<and>
         (\<exists>p. Pacemaker g2 = Some p \<and> stop p = None)"
    if h: "hello_res e = Inr rate" "auth_res e \<noteq> None \<or> Error (first_ev e) \<noteq> None"
      "join_returns e"
  proof -
    from Start_early_failure [OF h, of H g w] obtain err where
      f: "gateway_start H g w e = (started_g g w rate, started_w g w, Returned (Some err))"
        "Start H g w e =
           (started_g g w rate
              \<lparr>Pacemaker := Some \<lparr>Heartrate = rate, SentBeat = 0, EchoBeat = 0,
                                    stop = None, death = Some (next_chan w)\<rparr>,
               waitGroup := None\<rparr>,
            (started_w g w)
              \<lparr>chans := (chans (started_w g w))(Suc (next_chan w) \<mapsto> ChanClosed),
               trace := trace (started_w g w) @
                          [ChanClose (Suc (next_chan w)), WaitGroupWait, WSClose]\<rparr>,
            Returned (Some err))"
      by blast
    show ?thesis
      apply (rule exI [of _ "started_g g w rate"])
      apply (rule exI [of _ "started_w g w"])
      apply (subst f(1))
      apply (subst f(2))
      apply simp
      done
  qed
  show ?thesis using a b by blast
qed

theorem Start_closes_after_failure_witness:
  "hello_res env_auth_fails = Inr 40000000 \<and> auth_res env_auth_fails \<noteq> None \<and>
   join_returns env_auth_fails \<and> ws_close_res env_auth_fails = Some (Ext ''close failed'') \<and>
   (\<exists>g1 w1 g2 w2 err.
      gateway_start handler_demo gateway0 world0 env_auth_fails = (g1, w1, Returned (Some err)) \<and>
      Start handler_demo gateway0 world0 env_auth_fails = (g2, w2, Returned (Some err)) \<and>
      trace w2 = trace w1 @ [ChanClose 1, WaitGroupWait, WSClose] \<and>
      chans w2 1 = Some ChanClosed \<and>
      (\<exists>p. Pacemaker g2 = Some p \<and> stop p = None)) \<and>
   (\<exists>g1 w1 g2 w2.
      gateway_start handler_demo gateway0 world0 env_invalid_session
        = (g1, w1, Returned (Some (Wrap ErrInvalidSession ''WS handler error on first event''))) \<and>
      Close g1 w1 env_invalid_session = (g2, w2, Returned (Some (Ext ''close failed''))) \<and>
      Start handler_demo gateway0 world0 env_invalid_session
        = (g2, w2, Returned (Some (Wrap ErrInvalidSession ''WS handler error on first event''))) \<and>
      trace w2 = [GoPacemaker 1, CallIdentify, ChanClose 1, WaitGroupWait, WSClose])"
proof -
  have h: "hello_res env_auth_fails = Inr 40000000" "auth_res env_auth_fails \<noteq> None"
    "join_returns env_auth_fails" "ws_close_res env_auth_fails = Some (Ext ''close failed'')"
    by (simp_all add: env_auth_fails_def env_ok_def)
  have a: "\<exists>g1 w1 g2 w2 err.
      gateway_start handler_demo gateway0 world0 env_auth_fails = (g1, w1, Returned (Some err)) \<and>
      Start handler_demo gateway0 world0 env_auth_fails = (g2, w2, Returned (Some err)) \<and>
      trace w2 = trace w1 @ [ChanClose 1, WaitGroupWait, WSClose] \<and>
      chans w2 1 = Some ChanClosed \<and>
      (\<exists>p. Pacemaker g2 = Some p \<and> stop p = None)"
    using Start_closes_after_failure [where e = env_auth_fails and rate = 40000000
        and H = handler_demo and g = gateway0 and w = world0, THEN conjunct2] h
    by (simp add: world0_def)
  let ?g1 = "(started_g gateway0 world0 40000000)\<lparr>SessionID := []\<rparr>"
  let ?w1 = "started_w gateway0 world0"
  let ?p = "\<lparr>Heartrate = 40000000, SentBeat = 0, EchoBeat = 0, stop = Some 1, death = Some 0\<rparr>"
  have i: "hello_res env_invalid_session = Inr 40000000" "auth_res env_invalid_session = None"
    "Error (first_ev env_invalid_session) = None" "Data (first_ev env_invalid_session) = [9]"
    "join_returns env_invalid_session"
    "ws_close_res env_invalid_session = Some (Ext ''close failed'')"
    by (simp_all add: env_invalid_session_def env_ok_def)
  have gs: "gateway_start handler_demo gateway0 world0 env_invalid_session
        = (?g1, ?w1, Returned (Some (Wrap ErrInvalidSession ''WS handler error on first event'')))"
    using gateway_start_handler_failed [where e = env_invalid_session and rate = 40000000
        and H = handler_demo and g = gateway0 and w = world0 and ?g2.0 = ?g1
        and err = ErrInvalidSession] i
    by (simp add: handler_demo_def)
  have st: "Pacemaker ?g1 = Some ?p" "stop ?p = Some 1" "chans ?w1 1 = Some ChanOpen"
    "waitGroup ?g1 = Some (Suc 0)"
    "trace ?w1 = [GoPacemaker 1, CallIdentify]"
    by (simp_all add: started_g_def started_w_def world0_def gateway0_def)
  from Start_closes_after_failure [where e = env_invalid_session and H = handler_demo
        and g = gateway0 and w = world0 and ?g1.0 = ?g1 and ?w1.0 = ?w1 and p = ?p and c = 1
        and n = "Suc 0" and err = "Wrap ErrInvalidSession ''WS handler error on first event''",
        THEN conjunct1] gs st i(5,6)
  have b: "\<exists>g1 w1 g2 w2.
      gateway_start handler_demo gateway0 world0 env_invalid_session
        = (g1, w1, Returned (Some (Wrap ErrInvalidSession ''WS handler error on first event''))) \<and>
      Close g1 w1 env_invalid_session = (g2, w2, Returned (Some (Ext ''close failed''))) \<and>
      Start handler_demo gateway0 world0 env_invalid_session
        = (g2, w2, Returned (Some (Wrap ErrInvalidSession ''WS handler error on first event''))) \<and>
      trace w2 = [GoPacemaker 1, CallIdentify, ChanClose 1, WaitGroupWait, WSClose]"
    by simp
  show ?thesis using h a b by blast
qed

section \<open>The gateway: the loop of Open\<close>

lemma Open_loop_dial_failed:
  "dial_res (envs i) = Some err \<Longrightarrow>
     Open_loop H envs g w i =
       Open_loop H envs g (emit (ErrorLog (Wrap err ''Failed to reconnect'')) (emit WSDial w)) (Suc i)"
  by (subst Open_loop.simps) simp

lemma Open_loop_start_failed:
  "dial_res (envs i) = None \<Longrightarrow>
   Start H g (emit WSDial w) (envs i) = (g1, w1, Returned (Some err)) \<Longrightarrow>
     Open_loop H envs g w i =
       Open_loop H envs g1
         (if err = ErrInvalidSession then w1
          else emit (ErrorLog (Wrap err ''Failed to start gateway'')) w1) (Suc i)"
  by (subst Open_loop.simps) simp

lemma Open_loop_started:
  "dial_res (envs i) = None \<Longrightarrow>
   Start H g (emit WSDial w) (envs i) = (g1, w1, Returned None) \<Longrightarrow>
     Open_loop H envs g w i = Some (g1, w1, Returned None)"
  by (subst Open_loop.simps) simp

lemma Open_loop_panicked:
  "dial_res (envs i) = None \<Longrightarrow>
   Start H g (emit WSDial w) (envs i) = (g1, w1, Panicked) \<Longrightarrow>
     Open_loop H envs g w i = Some (g1, w1, Panicked)"
  by (subst Open_loop.simps) simp

lemma Stop_not_Blocked: "Stop p w \<noteq> Blocked"
  by (simp add: Stop_def close_chan_def split: option.splits chan_state.splits)

lemma Close_nil_panics:
  assumes "Pacemaker g = None \<or> waitGroup g = None"
  shows "snd (snd (Close g w e)) = Panicked"
proof (cases "Pacemaker g")
  case None
  then show ?thesis by (simp add: Close_def)
next
  case (Some p)
  with assms have wg: "waitGroup g = None" by simp
  show ?thesis
  proof (cases "Stop p w")
    case (Returned x)
    with Some wg show ?thesis by (cases x) (simp add: Close_def)
  next
    case Blocked
    then show ?thesis using Stop_not_Blocked by blast
  next
    case Panicked
    with Some show ?thesis by (simp add: Close_def)
  qed
qed

lemma Start_hello_failed:
  assumes "hello_res e = Inl err" "Pacemaker g = None \<or> waitGroup g = None"
  shows "gateway_start H g w e = (g, w, Returned (Some (Wrap err ''Error at Hello'')))"
    and "snd (snd (Start H g w e)) = Panicked"
proof -
  show s: "gateway_start H g w e = (g, w, Returned (Some (Wrap err ''Error at Hello'')))"
    using assms(1) by (simp add: gateway_start_def)
  obtain g2 w2 r where c: "Close g w e = (g2, w2, r)" by (cases "Close g w e") auto
  with Close_nil_panics [OF assms(2), of w e] have "r = Panicked" by simp
  with s c show "snd (snd (Start H g w e)) = Panicked" by (simp add: Start_def)
qed

lemma open_success_Suc: "open_success H envs (Suc i) y \<Longrightarrow> open_success H envs i y"
  unfolding open_success_def using Suc_leD by blast

lemma Open_loop_Some:
  assumes "Open_loop H envs g w i = Some y"
  shows "open_success H envs i y \<and> snd (snd y) \<noteq> Returned (Some err)"
proof (rule Open_loop.raw_induct
    [where P = "\<lambda>H envs g w i y. open_success H envs i y \<and> snd (snd y) \<noteq> Returned (Some err)",
      OF _ assms], goal_cases)
  case (1 f H envs g w i y)
  show ?case
  proof (cases "dial_res (envs i)")
    case (Some e)
    with 1(2) have "f H envs g (emit (ErrorLog (Wrap e ''Failed to reconnect'')) (emit WSDial w)) (Suc i)
        = Some y" by simp
    from 1(1) [OF this] show ?thesis using open_success_Suc by blast
  next
    case None
    obtain g1 w1 r1 where s: "Start H g (emit WSDial w) (envs i) = (g1, w1, r1)"
      by (cases "Start H g (emit WSDial w) (envs i)") auto
    show ?thesis
    proof (cases r1)
      case (Returned x)
      show ?thesis
      proof (cases x)
        case None
        with 1(2) \<open>dial_res (envs i) = None\<close> s Returned
        have y: "y = (g1, w1, Returned None)" by auto
        have "open_success H envs i y"
          unfolding open_success_def y using s Returned None \<open>dial_res (envs i) = None\<close> by blast
        then show ?thesis using y by simp
      next
        case (Some e)
        with 1(2) \<open>dial_res (envs i) = None\<close> s Returned
        have "\<exists>w2. f H envs g1 w2 (Suc i) = Some y"
          by (auto split: if_splits)
        then obtain w2 where "f H envs g1 w2 (Suc i) = Some y" ..
        from 1(1) [OF this] show ?thesis using open_success_Suc by blast
      qed
    next
      case Blocked
      with 1(2) \<open>dial_res (envs i) = None\<close> s have y: "y = (g1, w1, Blocked)" by auto
      have "open_success H envs i y"
        unfolding open_success_def y using s Blocked \<open>dial_res (envs i) = None\<close> by blast
      then show ?thesis using y by simp
    next
      case Panicked
      with 1(2) \<open>dial_res (envs i) = None\<close> s have y: "y = (g1, w1, Panicked)" by auto
      have "open_success H envs i y"
        unfolding open_success_def y using s Panicked \<open>dial_res (envs i) = None\<close> by blast
      then show ?thesis using y by simp
    qed
  qed
qed

lemma Open_loop_dial_failures:
  "(\<And>j. j < k \<Longrightarrow> dial_res (envs (i + j)) \<noteq> None) \<Longrightarrow>
     \<exists>w'. Open_loop H envs g w i = Open_loop H envs g w' (i + k)"
proof (induction k arbitrary: w i)
  case 0
  then show ?case by auto
next
  case (Suc k)
  from Suc.prems [of 0] obtain err where d: "dial_res (envs i) = Some err" by auto
  let ?w1 = "emit (ErrorLog (Wrap err ''Failed to reconnect'')) (emit WSDial w)"
  have "\<And>j. j < k \<Longrightarrow> dial_res (envs (Suc i + j)) \<noteq> None"
    using Suc.prems [of "Suc _"] by simp
  from Suc.IH [OF this, of ?w1] obtain w' where
    w': "Open_loop H envs g ?w1 (Suc i) = Open_loop H envs g w' (Suc i + k)"
    by blast
  have "Open_loop H envs g w i = Open_loop H envs g w' (i + Suc k)"
    using Open_loop_dial_failed [of envs i err H g w, OF d] w' by simp
  then show ?case by blast
qed

text \<open>
  The turns of the loop of \<open>Open\<close> in which \<open>Start\<close> returns. In every such turn \<open>i\<close>:
  a failed dial is logged through \<open>ErrorLog\<close> and the loop goes on with the next turn; a
  \<open>Start\<close> that returns an error is retried in the same way, logged unless the error is
  \<open>ErrInvalidSession\<close> itself (which \<open>Start\<close> never returns: \<open>start\<close> wraps every error);
  a successful dial and \<open>Start\<close> end the call with nil. When \<open>Open\<close> returns a value, the value is nil and some
  turn had a successful dial and \<open>Start\<close>. The loop is unbounded: \<open>Open\<close> never returns
  when every dial fails, nor when every \<open>Start\<close> fails; and it does return once a dial
  and a \<open>Start\<close> succeed, after any number \<open>k\<close> of failed dials.
\<close>

theorem Open_retries:
  "(dial_res (envs i) = Some err \<longrightarrow>
      Open_loop H envs g w i =
        Open_loop H envs g
          (emit (ErrorLog (Wrap err ''Failed to reconnect'')) (emit WSDial w)) (Suc i)) \<and>
   (dial_res (envs i) = None \<and>
    Start H g (emit WSDial w) (envs i) = (g1, w1, Returned (Some serr)) \<longrightarrow>
      Open_loop H envs g w i =
        Open_loop H envs g1
          (if serr = ErrInvalidSession then w1
           else emit (ErrorLog (Wrap serr ''Failed to start gateway'')) w1) (Suc i)) \<and>
   (dial_res (envs i) = None \<and>
    Start H g (emit WSDial w) (envs i) = (g1, w1, Returned None) \<longrightarrow>
      Open_loop H envs g w i = Some (g1, w1, Returned None)) \<and>
   (Open H envs g w = Some (g', w', Returned r) \<longrightarrow>
      r = None \<and>
      (\<exists>n gn wn. dial_res (envs n) = None \<and>
         Start H gn (emit WSDial wn) (envs n) = (g', w', Returned None))) \<and>
   ((\<forall>n. dial_res (envs n) \<noteq> None) \<longrightarrow> Open H envs g w = None) \<and>
   ((\<forall>n gn wn. \<exists>gf wf ferr. Start H gn wn (envs n) = (gf, wf, Returned (Some ferr))) \<longrightarrow>
      Open H envs g w = None) \<and>
   ((\<forall>j<k. dial_res (envs j) \<noteq> None) \<and> dial_res (envs k) = None \<and>
    (\<forall>wk. \<exists>gs ws. Start H g (emit WSDial wk) (envs k) = (gs, ws, Returned None)) \<longrightarrow>
      (\<exists>gs ws. Open H envs g w = Some (gs, ws, Returned None)))"
proof -
  have a: "Open_loop H envs g w i =
        Open_loop H envs g
          (emit (ErrorLog (Wrap err ''Failed to reconnect'')) (emit WSDial w)) (Suc i)"
    if "dial_res (envs i) = Some err"
    using that by (rule Open_loop_dial_failed)
  have b: "Open_loop H envs g w i =
        Open_loop H envs g1
          (if serr = ErrInvalidSession then w1
           else emit (ErrorLog (Wrap serr ''Failed to start gateway'')) w1) (Suc i)"
    if "dial_res (envs i) = None"
      "Start H g (emit WSDial w) (envs i) = (g1, w1, Returned (Some serr))"
    using that by (rule Open_loop_start_failed)
  have c: "Open_loop H envs g w i = Some (g1, w1, Returned None)"
    if "dial_res (envs i) = None" "Start H g (emit WSDial w) (envs i) = (g1, w1, Returned None)"
    using that by (rule Open_loop_started)
  have d: "r = None \<and>
      (\<exists>n gn wn. dial_res (envs n) = None \<and>
         Start H gn (emit WSDial wn) (envs n) = (g', w', Returned None))"
    if o: "Open H envs g w = Some (g', w', Returned r)"
  proof -
    have r: "r = None"
    proof (cases r)
      case None
      then show ?thesis .
    next
      case (Some x)
      with Open_loop_Some [of H envs g w 0 "(g', w', Returned r)" x] o show ?thesis
        by (simp add: Open_def)
    qed
    from Open_loop_Some [of H envs g w 0 "(g', w', Returned r)"] o
    have "open_success H envs 0 (g', w', Returned r)" by (simp add: Open_def)
    with r show ?thesis unfolding open_success_def by blast
  qed
  have e: "Open H envs g w = None" if "\<forall>n. dial_res (envs n) \<noteq> None"
  proof (cases "Open H envs g w")
    case None
    then show ?thesis .
  next
    case (Some y)
    with Open_loop_Some [of H envs g w 0 y] have "open_success H envs 0 y"
      by (simp add: Open_def)
    with that show ?thesis unfolding open_success_def by blast
  qed
  have f: "Open H envs g w = None"
    if all: "\<forall>n gn wn. \<exists>gf wf ferr. Start H gn wn (envs n) = (gf, wf, Returned (Some ferr))"
  proof (cases "Open H envs g w")
    case None
    then show ?thesis .
  next
    case (Some y)
    then have s: "Open_loop H envs g w 0 = Some y" by (simp add: Open_def)
    from Open_loop_Some [OF s] have "open_success H envs 0 y" by blast
    then obtain n gn wn where y: "Start H gn (emit WSDial wn) (envs n) = y"
      unfolding open_success_def by blast
    from all obtain gf wf ferr where
      "Start H gn (emit WSDial wn) (envs n) = (gf, wf, Returned (Some ferr))" by blast
    with y have "snd (snd y) = Returned (Some ferr)" by auto
    with Open_loop_Some [OF s, of ferr] show ?thesis by blast
  qed
  have g: "\<exists>gs ws. Open H envs g w = Some (gs, ws, Returned None)"
    if fl: "\<forall>j<k. dial_res (envs j) \<noteq> None" and ok: "dial_res (envs k) = None"
      and st: "\<forall>wk. \<exists>gs ws. Start H g (emit WSDial wk) (envs k) = (gs, ws, Returned None)"
  proof -
    from fl have "\<And>j. j < k \<Longrightarrow> dial_res (envs (0 + j)) \<noteq> None" by simp
    from Open_loop_dial_failures [of k envs 0 H g w, OF this] obtain wk where
      wk: "Open_loop H envs g w 0 = Open_loop H envs g wk k"
      by auto
    from st obtain gs ws where s: "Start H g (emit WSDial wk) (envs k) = (gs, ws, Returned None)"
      by blast
    from Open_loop_started [of envs k H g wk gs ws, OF ok s] wk have "Open H envs g w = Some (gs, ws, Returned None)"
      by (simp add: Open_def)
    then show ?thesis by blast
  qed
  show ?thesis using a b c d e f g by blast
qed

theorem Open_retries_witness:
  "dial_res (envs_two_dials_down 0) = Some (Ext ''connection refused'') \<and>
   dial_res (envs_two_dials_down 1) = Some (Ext ''connection refused'') \<and>
   dial_res (envs_two_dials_down 2) = None \<and>
   (\<exists>g' w'. Open handler_demo envs_two_dials_down gateway0 world0 = Some (g', w', Returned None) \<and>
      trace w' =
        [WSDial, ErrorLog (Wrap (Ext ''connection refused'') ''Failed to reconnect''),
         WSDial, ErrorLog (Wrap (Ext ''connection refused'') ''Failed to reconnect''),
         WSDial, GoPacemaker 1, CallIdentify, GoHandleWS]) \<and>
   dial_res (envs_auth_fails_once 0) = None \<and>
   (\<exists>g' w'. Open handler_demo envs_auth_fails_once gateway0 world0 = Some (g', w', Returned None) \<and>
      trace w' =
        [WSDial, GoPacemaker 1, CallIdentify, ChanClose 1, WaitGroupWait, WSClose,
         ErrorLog (Wrap (Wrap (Ext ''write timeout'') ''Failed to identify'')
                    ''Failed to start gateway''),
         WSDial, GoPacemaker 3, CallIdentify, GoHandleWS]) \<and>
   Open handler_demo (\<lambda>n. env_dial_down) gateway0 world0 = None \<and>
   Open handler_demo (\<lambda>n. env_auth_fails) gateway0 world0 = None \<and>
   (\<exists>g' w' n gn wn.
      Open handler_demo envs_two_dials_down gateway0 world0 = Some (g', w', Returned None) \<and>
      dial_res (envs_two_dials_down n) = None \<and>
      Start handler_demo gn (emit WSDial wn) (envs_two_dials_down n) = (g', w', Returned None))"
proof -
  let ?e = "ErrorLog (Wrap (Ext ''connection refused'') ''Failed to reconnect'')"
  have d: "dial_res (envs_two_dials_down 0) = Some (Ext ''connection refused'')"
    "dial_res (envs_two_dials_down (Suc 0)) = Some (Ext ''connection refused'')"
    "dial_res (envs_two_dials_down (Suc (Suc 0))) = None"
    "envs_two_dials_down (Suc (Suc 0)) = env_ok"
    by (simp_all add: envs_two_dials_down_def env_dial_down_def env_ok_def)
  let ?w1 = "emit ?e (emit WSDial world0)"
  let ?w2 = "emit ?e (emit WSDial ?w1)"
  have s1: "Open_loop handler_demo envs_two_dials_down gateway0 world0 0
      = Open_loop handler_demo envs_two_dials_down gateway0 ?w1 (Suc 0)"
    using Open_retries [where envs = envs_two_dials_down and i = 0
        and err = "Ext ''connection refused''" and H = handler_demo and g = gateway0
        and w = world0, THEN conjunct1] d(1)
    by simp
  have s2: "Open_loop handler_demo envs_two_dials_down gateway0 ?w1 (Suc 0)
      = Open_loop handler_demo envs_two_dials_down gateway0 ?w2 (Suc (Suc 0))"
    using Open_retries [where envs = envs_two_dials_down and i = "Suc 0"
        and err = "Ext ''connection refused''" and H = handler_demo and g = gateway0
        and w = ?w1, THEN conjunct1] d(2)
    by simp
  let ?g3 = "(started_g gateway0 (emit WSDial ?w2) 40000000)
      \<lparr>SessionID := ''S'', waitGroup := Some (Suc (Suc 0))\<rparr>"
  let ?w3 = "emit GoHandleWS (started_w gateway0 (emit WSDial ?w2))"
  have s3: "Open_loop handler_demo envs_two_dials_down gateway0 ?w2 (Suc (Suc 0))
      = Some (?g3, ?w3, Returned None)"
    using Open_retries [where envs = envs_two_dials_down and i = "Suc (Suc 0)"
        and H = handler_demo and g = gateway0 and w = ?w2 and ?g1.0 = ?g3 and ?w1.0 = ?w3,
        THEN conjunct2, THEN conjunct2, THEN conjunct1]
      d(3,4) Start_demo [of gateway0 "emit WSDial ?w2"]
    by simp
  have t3: "trace ?w3 = [WSDial, ?e, WSDial, ?e, WSDial, GoPacemaker 1, CallIdentify,
      GoHandleWS]"
    by (simp add: emit_def started_w_def world0_def gateway0_def)
  have a: "\<exists>g' w'. Open handler_demo envs_two_dials_down gateway0 world0
        = Some (g', w', Returned None) \<and>
      trace w' = [WSDial, ?e, WSDial, ?e, WSDial, GoPacemaker 1, CallIdentify,
        GoHandleWS]"
    using s1 s2 s3 t3 unfolding Open_def by metis
  have f: "dial_res (envs_auth_fails_once 0) = None" "envs_auth_fails_once 0 = env_auth_fails"
    "dial_res (envs_auth_fails_once (Suc 0)) = None" "envs_auth_fails_once (Suc 0) = env_ok"
    by (simp_all add: envs_auth_fails_once_def env_auth_fails_def env_ok_def)
  have af: "hello_res env_auth_fails = Inr 40000000"
    "auth_res env_auth_fails = Some (Ext ''write timeout'')" "join_returns env_auth_fails"
    by (simp_all add: env_auth_fails_def env_ok_def)
  let ?v0 = "emit WSDial world0"
  let ?h1 = "(started_g gateway0 ?v0 40000000)
              \<lparr>Pacemaker := Some \<lparr>Heartrate = 40000000, SentBeat = 0, EchoBeat = 0,
                                    stop = None, death = Some (next_chan ?v0)\<rparr>,
               waitGroup := None\<rparr>"
  let ?v1 = "(started_w gateway0 ?v0)
              \<lparr>chans := (chans (started_w gateway0 ?v0))(Suc (next_chan ?v0) \<mapsto> ChanClosed),
               trace := trace (started_w gateway0 ?v0) @
                          [ChanClose (Suc (next_chan ?v0)), WaitGroupWait, WSClose]\<rparr>"
  let ?err = "Wrap (Ext ''write timeout'') ''Failed to identify''"
  have q1: "Start handler_demo gateway0 ?v0 env_auth_fails = (?h1, ?v1, Returned (Some ?err))"
    using Start_early_failure [where e = env_auth_fails and rate = 40000000 and H = handler_demo
        and g = gateway0 and w = ?v0] af
    by (simp add: gateway0_def)
  let ?v2 = "emit (ErrorLog (Wrap ?err ''Failed to start gateway'')) ?v1"
  have r1: "Open_loop handler_demo envs_auth_fails_once gateway0 world0 0
      = Open_loop handler_demo envs_auth_fails_once ?h1 ?v2 (Suc 0)"
    using Open_retries [where envs = envs_auth_fails_once and i = 0 and H = handler_demo
        and g = gateway0 and w = world0 and ?g1.0 = ?h1 and ?w1.0 = ?v1 and serr = ?err,
        THEN conjunct2, THEN conjunct1]
      f(1,2) q1
    by simp
  let ?h3 = "(started_g ?h1 (emit WSDial ?v2) 40000000)
      \<lparr>SessionID := ''S'', waitGroup := Some (Suc (Suc 0))\<rparr>"
  let ?v3 = "emit GoHandleWS (started_w ?h1 (emit WSDial ?v2))"
  have r2: "Open_loop handler_demo envs_auth_fails_once ?h1 ?v2 (Suc 0)
      = Some (?h3, ?v3, Returned None)"
    using Open_retries [where envs = envs_auth_fails_once and i = "Suc 0"
        and H = handler_demo and g = ?h1 and w = ?v2 and ?g1.0 = ?h3 and ?w1.0 = ?v3,
        THEN conjunct2, THEN conjunct2, THEN conjunct1]
      f(3,4) Start_demo [of ?h1 "emit WSDial ?v2"]
    by simp
  have u3: "trace ?v3 =
        [WSDial, GoPacemaker 1, CallIdentify, ChanClose 1, WaitGroupWait, WSClose,
         ErrorLog (Wrap ?err ''Failed to start gateway''),
         WSDial, GoPacemaker 3, CallIdentify, GoHandleWS]"
    by (simp add: emit_def started_w_def started_g_def world0_def gateway0_def)
  have b: "\<exists>g' w'. Open handler_demo envs_auth_fails_once gateway0 world0
        = Some (g', w', Returned None) \<and>
      trace w' =
        [WSDial, GoPacemaker 1, CallIdentify, ChanClose 1, WaitGroupWait, WSClose,
         ErrorLog (Wrap ?err ''Failed to start gateway''),
         WSDial, GoPacemaker 3, CallIdentify, GoHandleWS]"
    using r1 r2 u3 unfolding Open_def by metis
  have c: "Open handler_demo (\<lambda>n. env_dial_down) gateway0 world0 = None"
    using Open_retries [where envs = "\<lambda>n. env_dial_down" and H = handler_demo and g = gateway0
        and w = world0,
        THEN conjunct2, THEN conjunct2, THEN conjunct2, THEN conjunct2, THEN conjunct1]
    by (simp add: env_dial_down_def)
  have dn: "dial_res (envs_two_dials_down 1) = Some (Ext ''connection refused'')"
    "dial_res (envs_two_dials_down 2) = None"
    by (simp_all add: envs_two_dials_down_def env_dial_down_def env_ok_def)
  have "\<forall>n gn wn. \<exists>gf wf ferr.
      Start handler_demo gn wn ((\<lambda>n. env_auth_fails) n) = (gf, wf, Returned (Some ferr))"
    using Start_early_failure [where e = env_auth_fails and rate = 40000000 and H = handler_demo]
      af
    by (metis option.distinct(1))
  then have nf: "Open handler_demo (\<lambda>n. env_auth_fails) gateway0 world0 = None"
    using Open_retries [where envs = "\<lambda>n. env_auth_fails" and H = handler_demo
        and g = gateway0 and w = world0,
        THEN conjunct2, THEN conjunct2, THEN conjunct2, THEN conjunct2, THEN conjunct2,
        THEN conjunct1]
    by blast
  have k: "\<forall>j<2. dial_res (envs_two_dials_down j) \<noteq> None"
    by (simp add: envs_two_dials_down_def env_dial_down_def)
  have sk: "\<forall>wk. \<exists>gs ws.
      Start handler_demo gateway0 (emit WSDial wk) (envs_two_dials_down 2) = (gs, ws, Returned None)"
    by (simp add: envs_two_dials_down_def Start_demo)
  from Open_retries [where envs = envs_two_dials_down and H = handler_demo
        and g = gateway0 and w = world0 and k = 2,
        THEN conjunct2, THEN conjunct2, THEN conjunct2, THEN conjunct2, THEN conjunct2,
        THEN conjunct2] k dn(2) sk
  obtain gs ws where
    o: "Open handler_demo envs_two_dials_down gateway0 world0 = Some (gs, ws, Returned None)"
    by blast
  from Open_retries [where envs = envs_two_dials_down and H = handler_demo
        and g = gateway0 and w = world0 and g' = gs and w' = ws and r = None,
        THEN conjunct2, THEN conjunct2, THEN conjunct2, THEN conjunct1] o
  have e: "\<exists>g' w' n gn wn.
      Open handler_demo envs_two_dials_down gateway0 world0 = Some (g', w', Returned None) \<and>
      dial_res (envs_two_dials_down n) = None \<and>
      Start handler_demo gn (emit WSDial wn) (envs_two_dials_down n) = (g', w', Returned None)"
    by blast
  show ?thesis using d(1) dn f(1) a b c nf e by simp
qed

text \<open>
  C3. A \<open>Start\<close> that fails at the Hello is neither logged nor retried. \<open>start\<close> returns
  its error before the pacemaker and the wait group are made, and \<open>Start\<close> calls \<open>Close\<close>
  on that gateway: on a new gateway \<open>g.Pacemaker\<close> is nil and \<open>Stop\<close> dereferences it, and
  on a gateway that \<open>Close\<close> has closed before \<open>g.waitGroup\<close> is nil and \<open>Wait\<close>
  dereferences it. \<open>Open\<close> ends in that panic. First a new gateway whose first frame is
  not a Hello: the trace of \<open>Open\<close> is the dial alone. Then a gateway whose first turn
  failed at \<open>Identify\<close>, which was closed, logged and retried, and whose second turn has
  no Hello.
\<close>

theorem Open_hello_failure:
  "gateway_start handler_demo gateway0 (emit WSDial world0) env_no_hello
     = (gateway0, emit WSDial world0,
        Returned (Some (Wrap (Ext ''unexpected opcode'') ''Error at Hello''))) \<and>
   Start handler_demo gateway0 (emit WSDial world0) env_no_hello
     = (gateway0, emit WSDial world0, Panicked) \<and>
   Open handler_demo (\<lambda>n. env_no_hello) gateway0 world0
     = Some (gateway0, world0\<lparr>trace := [WSDial]\<rparr>, Panicked) \<and>
   (case Open handler_demo envs_no_hello_second gateway0 world0 of
      None \<Rightarrow> False
    | Some (g', w', r) \<Rightarrow>
        r = Panicked \<and>
        trace w' =
          [WSDial, GoPacemaker 1, CallIdentify, ChanClose 1, WaitGroupWait, WSClose,
           ErrorLog (Wrap (Wrap (Ext ''write timeout'') ''Failed to identify'')
                      ''Failed to start gateway''),
           WSDial])"
proof -
  have h: "hello_res env_no_hello = Inl (Ext ''unexpected opcode'')"
    "dial_res env_no_hello = None"
    by (simp_all add: env_no_hello_def env_ok_def)
  have a: "gateway_start handler_demo gateway0 (emit WSDial world0) env_no_hello
     = (gateway0, emit WSDial world0,
        Returned (Some (Wrap (Ext ''unexpected opcode'') ''Error at Hello'')))"
    using h(1) by (simp add: gateway_start_def)
  have b: "Start handler_demo gateway0 (emit WSDial world0) env_no_hello
     = (gateway0, emit WSDial world0, Panicked)"
    using h(1) by (simp add: Start_def gateway_start_def Close_def gateway0_def)
  have c: "Open handler_demo (\<lambda>n. env_no_hello) gateway0 world0
     = Some (gateway0, world0\<lparr>trace := [WSDial]\<rparr>, Panicked)"
    using Open_loop_panicked [where envs = "\<lambda>n. env_no_hello" and i = 0, OF h(2) b]
    by (simp add: Open_def emit_def world0_def)
  have f: "dial_res (envs_no_hello_second 0) = None" "envs_no_hello_second 0 = env_auth_fails"
    "dial_res (envs_no_hello_second (Suc 0)) = None" "envs_no_hello_second (Suc 0) = env_no_hello"
    by (simp_all add: envs_no_hello_second_def env_auth_fails_def env_no_hello_def env_ok_def)
  have af: "hello_res env_auth_fails = Inr 40000000"
    "auth_res env_auth_fails = Some (Ext ''write timeout'')" "join_returns env_auth_fails"
    by (simp_all add: env_auth_fails_def env_ok_def)
  let ?v0 = "emit WSDial world0"
  let ?h1 = "(started_g gateway0 ?v0 40000000)
              \<lparr>Pacemaker := Some \<lparr>Heartrate = 40000000, SentBeat = 0, EchoBeat = 0,
                                    stop = None, death = Some (next_chan ?v0)\<rparr>,
               waitGroup := None\<rparr>"
  let ?v1 = "(started_w gateway0 ?v0)
              \<lparr>chans := (chans (started_w gateway0 ?v0))(Suc (next_chan ?v0) \<mapsto> ChanClosed),
               trace := trace (started_w gateway0 ?v0) @
                          [ChanClose (Suc (next_chan ?v0)), WaitGroupWait, WSClose]\<rparr>"
  let ?err = "Wrap (Ext ''write timeout'') ''Failed to identify''"
  have q1: "Start handler_demo gateway0 ?v0 env_auth_fails = (?h1, ?v1, Returned (Some ?err))"
    using Start_early_failure [where e = env_auth_fails and rate = 40000000 and H = handler_demo
        and g = gateway0 and w = ?v0] af
    by (simp add: gateway0_def)
  let ?v2 = "emit (ErrorLog (Wrap ?err ''Failed to start gateway'')) ?v1"
  have r1: "Open_loop handler_demo envs_no_hello_second gateway0 world0 0
      = Open_loop handler_demo envs_no_hello_second ?h1 ?v2 (Suc 0)"
    using Open_loop_start_failed [where envs = envs_no_hello_second and i = 0
        and H = handler_demo and g = gateway0 and w = world0 and ?g1.0 = ?h1 and ?w1.0 = ?v1
        and err = ?err] f(1,2) q1
    by simp
  have q2: "Start handler_demo ?h1 (emit WSDial ?v2) env_no_hello
      = (?h1, emit WSDial ?v2, Panicked)"
    using h(1) by (simp add: Start_def gateway_start_def Close_def Stop_def started_g_def)
  have r2: "Open_loop handler_demo envs_no_hello_second ?h1 ?v2 (Suc 0)
      = Some (?h1, emit WSDial ?v2, Panicked)"
    using Open_loop_panicked [where envs = envs_no_hello_second and i = "Suc 0"
        and H = handler_demo and g = ?h1 and w = ?v2 and ?g1.0 = ?h1
        and ?w1.0 = "emit WSDial ?v2"] f(3,4) q2
    by simp
  have t: "trace (emit WSDial ?v2) =
          [WSDial, GoPacemaker 1, CallIdentify, ChanClose 1, WaitGroupWait, WSClose,
           ErrorLog (Wrap ?err ''Failed to start gateway''), WSDial]"
    by (simp add: emit_def started_w_def world0_def gateway0_def)
  have d: "case Open handler_demo envs_no_hello_second gateway0 world0 of
      None \<Rightarrow> False
    | Some (g', w', r) \<Rightarrow>
        r = Panicked \<and>
        trace w' =
          [WSDial, GoPacemaker 1, CallIdentify, ChanClose 1, WaitGroupWait, WSClose,
           ErrorLog (Wrap ?err ''Failed to start gateway''), WSDial]"
    unfolding Open_def r1 r2 using t by simp
  show ?thesis using a b c d by blast
qed

section \<open>The gateway: the event loop\<close>






















section \<open>The gateway: Close and its goroutines\<close>















end
